theory Spec2Isabelle
  imports Complex_Main "HOL-Library.Sublist"
begin

section \<open>Python strings\<close>

text \<open>
  Strings are \<open>char list\<close>s. The f-strings of the source are written out as
  concatenations; a line break inside a triple-quoted literal is the character \<open>NL\<close>.
\<close>

abbreviation NL :: string where
  "NL \<equiv> [CHR 0x0A]"

text \<open>\<^verbatim>\<open>sep.join(xs)\<close>\<close>

fun py_join :: "string \<Rightarrow> string list \<Rightarrow> string" where
  "py_join sep [] = []"
| "py_join sep [x] = x"
| "py_join sep (x # y # ys) = x @ sep @ py_join sep (y # ys)"

text \<open>
  \<^verbatim>\<open>str.isspace\<close> on the ASCII range (tab, line feed, vertical tab, form feed, carriage
  return, the four separators 0x1C..0x1F and the blank) and \<^verbatim>\<open>s.strip()\<close>.
\<close>

definition py_isspace :: "char \<Rightarrow> bool" where
  "py_isspace c = (c \<in> set [CHR 0x09, CHR 0x0A, CHR 0x0B, CHR 0x0C, CHR 0x0D,
                               CHR 0x1C, CHR 0x1D, CHR 0x1E, CHR 0x1F, CHR 0x20])"

definition py_strip :: "string \<Rightarrow> string" where
  "py_strip s = rev (dropWhile py_isspace (rev (dropWhile py_isspace s)))"

text \<open>\<^verbatim>\<open>str(b)\<close> of a bool and \<^verbatim>\<open>str(i)\<close> of an int, as an f-string field prints them.\<close>

definition py_str_bool :: "bool \<Rightarrow> string" where
  "py_str_bool b = (if b then ''True'' else ''False'')"

fun py_str_nat :: "nat \<Rightarrow> string" where
  "py_str_nat n =
     (if n < 10 then [char_of (48 + n)]
      else py_str_nat (n div 10) @ [char_of (48 + n mod 10)])"

definition py_str_int :: "int \<Rightarrow> string" where
  "py_str_int i = (if i < 0 then ''-'' @ py_str_nat (nat (- i)) else py_str_nat (nat i))"

section \<open>Pose\<close>

text \<open>
  Modelled from the spec: the class \<^verbatim>\<open>Pose\<close> of \<^verbatim>\<open>lisdf.components.base\<close> is not among the
  source files. The spec gives a pose as a position and an orientation (the 7-tuple
  form: three coordinates and a quaternion), with an identity and a composition
  \<open>compose outer inner\<close> that expresses \<open>inner\<close> in the frame \<open>outer\<close>. Python floats are
  idealised as reals; no rounding is modelled.
\<close>

type_synonym vector3f = "real \<times> real \<times> real"
type_synonym vector4f = "real \<times> real \<times> real \<times> real"

record pose =
  pos :: vector3f
  quat_wxyz :: vector4f

definition identity :: pose where
  "identity = \<lparr>pos = (0, 0, 0), quat_wxyz = (1, 0, 0, 0)\<rparr>"

fun quat_mul :: "vector4f \<Rightarrow> vector4f \<Rightarrow> vector4f" where
  "quat_mul (w1, x1, y1, z1) (w2, x2, y2, z2) =
     (w1 * w2 - x1 * x2 - y1 * y2 - z1 * z2,
      w1 * x2 + x1 * w2 + y1 * z2 - z1 * y2,
      w1 * y2 - x1 * z2 + y1 * w2 + z1 * x2,
      w1 * z2 + x1 * y2 - y1 * x2 + z1 * w2)"

fun cross :: "vector3f \<Rightarrow> vector3f \<Rightarrow> vector3f" where
  "cross (a1, a2, a3) (b1, b2, b3) = (a2 * b3 - a3 * b2, a3 * b1 - a1 * b3, a1 * b2 - a2 * b1)"

fun vadd :: "vector3f \<Rightarrow> vector3f \<Rightarrow> vector3f" where
  "vadd (a1, a2, a3) (b1, b2, b3) = (a1 + b1, a2 + b2, a3 + b3)"

fun vscale :: "real \<Rightarrow> vector3f \<Rightarrow> vector3f" where
  "vscale k (a1, a2, a3) = (k * a1, k * a2, k * a3)"

text \<open>
  Rotating a vector by a unit quaternion \<open>(w, u)\<close>: \<open>v + 2w (u \<times> v) + 2 u \<times> (u \<times> v)\<close>.
  The formula is the rotation only when the quaternion has norm one.
\<close>

fun quat_rotate :: "vector4f \<Rightarrow> vector3f \<Rightarrow> vector3f" where
  "quat_rotate (w, x, y, z) v =
     vadd v (vadd (vscale (2 * w) (cross (x, y, z) v))
                  (vscale 2 (cross (x, y, z) (cross (x, y, z) v))))"

definition compose :: "pose \<Rightarrow> pose \<Rightarrow> pose" where
  "compose outer inner =
     \<lparr>pos = vadd (pos outer) (quat_rotate (quat_wxyz outer) (pos inner)),
      quat_wxyz = quat_mul (quat_wxyz outer) (quat_wxyz inner)\<rparr>"

section \<open>Collaborators that only carry data and their two renderings\<close>

text \<open>
  Modelled from the spec: shape, material, joint-info, joint-control and sensor
  descriptors come from modules that are not among the source files
  (\<^verbatim>\<open>shape\<close>, \<^verbatim>\<open>material\<close>, \<^verbatim>\<open>control\<close>, \<^verbatim>\<open>sensor\<close>). The spec says they merely carry data
  plus their own two rendering operations, so each is represented by what the
  renderers of \<^verbatim>\<open>model.py\<close> read from it: its type tag and its two rendered texts.
\<close>

record shape_info =
  shape_type :: string
  shape_sdf :: string
  shape_urdf :: string

record material =
  material_sdf :: string
  material_urdf :: string

record joint_info =
  joint_type :: string
  joint_info_sdf :: string
  joint_info_urdf :: string

record joint_control_info =
  control_sdf :: string
  control_urdf :: string

record sensor =
  sensor_name :: string

section \<open>The entity graph of \<^verbatim>\<open>model.py\<close> and \<^verbatim>\<open>state.py\<close>\<close>

record inertia =
  ixx :: real
  ixy :: real
  ixz :: real
  iyy :: real
  iyz :: real
  izz :: real

record inertial =
  mass :: real
  inertial_pose :: pose
  inertial_inertia :: inertia

datatype surface_contact = SurfaceContact

datatype surface_friction = SurfaceFriction

record surface_info =
  contact :: "surface_contact option"
  friction :: "surface_friction option"

text \<open>
  \<^verbatim>\<open>_Geom.pose\<close> is annotated \<^verbatim>\<open>Pose\<close>, but \<^verbatim>\<open>_to_sdf\<close> tests it against \<^verbatim>\<open>None\<close>, so the
  field is optional here and the unguarded \<^verbatim>\<open>self.pose.to_urdf(ctx)\<close> is an error branch.
\<close>

record collision =
  collision_name :: string
  collision_pose :: "pose option"
  collision_shape :: shape_info
  surface :: "surface_info option"

record visual =
  visual_name :: string
  visual_pose :: "pose option"
  visual_shape :: shape_info
  visual_material :: "material option"

record link =
  link_name :: string
  link_parent :: "string option"
  link_pose :: "pose option"
  link_inertial :: "inertial option"
  collisions :: "collision list"
  visuals :: "visual list"
  sensors :: "sensor list"

text \<open>
  \<^verbatim>\<open>Joint.name\<close> is annotated \<^verbatim>\<open>str\<close>, but both renderers test it against \<^verbatim>\<open>None\<close>.
\<close>

record joint =
  joint_name :: "string option"
  joint_parent :: string
  joint_child :: string
  joint_pose :: pose
  joint_joint_info :: joint_info
  joint_control_info :: "joint_control_info option"

record model =
  model_name :: string
  model_pose :: "pose option"
  model_parent :: "string option"
  model_static :: bool
  links :: "link list"
  joints :: "joint list"

record sdf_include =
  include_name :: "string option"
  uri :: string
  scale :: vector3f
  include_pose :: "pose option"
  include_parent :: "string option"
  include_static :: bool
  scale1d :: "real option"

record joint_axis_state =
  axis :: int
  axis_value :: real

record joint_state =
  joint_state_name :: string
  axis_states :: "joint_axis_state list"

record link_state =
  link_state_name :: string
  link_state_pose :: "pose option"

record model_state =
  model_state_name :: string
  model_state_parent :: "string option"
  model_state_pose :: "pose option"
  joint_states :: "joint_state list"
  link_states :: "link_state list"

record world_state =
  world_state_name :: string
  model_states :: "model_state list"

text \<open>Any node that has the two rendering operations.\<close>

datatype entity =
    E_Inertia inertia
  | E_Inertial inertial
  | E_SurfaceContact surface_contact
  | E_SurfaceFriction surface_friction
  | E_SurfaceInfo surface_info
  | E_Collision collision
  | E_Visual visual
  | E_Link link
  | E_Joint joint
  | E_Model model
  | E_SDFInclude sdf_include
  | E_JointAxisState joint_axis_state
  | E_JointState joint_state
  | E_LinkState link_state
  | E_ModelState model_state
  | E_WorldState world_state

section \<open>Errors and the render context\<close>

datatype error =
    ValueError string
  | AssertionError
  | AttributeError string
  | IndexError string

text \<open>
  What the renderers take from outside \<^verbatim>\<open>model.py\<close> and \<^verbatim>\<open>state.py\<close>, as parameters:
  the module-level name-scope separator (default \<open>''.''\<close>), whether popping an empty
  stack raises (the spec only says that pop pops), \<^verbatim>\<open>indent_text\<close> of
  \<^verbatim>\<open>lisdf.utils.printing\<close>, the text of a float in an f-string, and the two text
  renderings of a pose. The flattening rendering of a pose is given the pose stack of
  the context, the nesting one keeps poses local.
\<close>

record env =
  name_scope_sep :: string
  pop_empty_raises :: bool
  indent_text :: "string \<Rightarrow> nat \<Rightarrow> string"
  float_str :: "real \<Rightarrow> string"
  Pose_to_sdf :: "pose \<Rightarrow> string"
  Pose_to_urdf :: "pose list \<Rightarrow> pose \<Rightarrow> string"

text \<open>
  Modelled from the spec: \<^verbatim>\<open>StringifyContext\<close> of \<^verbatim>\<open>lisdf.components.base\<close> is not among the
  source files. It holds a stack of name-scope prefixes, a stack of accumulated poses
  and an append-only list of diagnostics (entity and message). The top of a stack is
  the last element of the list.
\<close>

record ctx =
  name_stack :: "string list"
  pose_stack :: "pose list"
  warnings :: "(entity \<times> string) list"

definition new_ctx :: ctx where
  "new_ctx = \<lparr>name_stack = [], pose_stack = [], warnings = []\<rparr>"

type_synonym 'a render = "ctx \<Rightarrow> (error + 'a) \<times> ctx"

definition warning :: "entity \<Rightarrow> string \<Rightarrow> ctx \<Rightarrow> ctx" where
  "warning obj message c = c\<lparr>warnings := warnings c @ [(obj, message)]\<rparr>"

text \<open>Joins the scope-stack prefixes and the local name with the separator.\<close>

definition get_scoped_name :: "env \<Rightarrow> ctx \<Rightarrow> string \<Rightarrow> string" where
  "get_scoped_name env c local_name = py_join (name_scope_sep env) (name_stack c @ [local_name])"

definition push_scoped_name :: "string \<Rightarrow> ctx \<Rightarrow> ctx" where
  "push_scoped_name n c = c\<lparr>name_stack := name_stack c @ [n]\<rparr>"

definition pop_scoped_name :: "env \<Rightarrow> unit render" where
  "pop_scoped_name env c =
     (if name_stack c = [] then
        (if pop_empty_raises env then (Inl (IndexError ''model_name''), c) else (Inr (), c))
      else (Inr (), c\<lparr>name_stack := butlast (name_stack c)\<rparr>))"

text \<open>Composes the pose with the top of the stack (identity if empty) and pushes the result.\<close>

definition get_scoped_pose :: "ctx \<Rightarrow> pose \<Rightarrow> pose" where
  "get_scoped_pose c p = compose (if pose_stack c = [] then identity else last (pose_stack c)) p"

definition push_scoped_pose :: "pose \<Rightarrow> ctx \<Rightarrow> ctx" where
  "push_scoped_pose p c = c\<lparr>pose_stack := pose_stack c @ [get_scoped_pose c p]\<rparr>"

definition pop_scoped_pose :: "env \<Rightarrow> unit render" where
  "pop_scoped_pose env c =
     (if pose_stack c = [] then
        (if pop_empty_raises env then (Inl (IndexError ''model_pose''), c) else (Inr (), c))
      else (Inr (), c\<lparr>pose_stack := butlast (pose_stack c)\<rparr>))"

text \<open>
  Sequencing with exceptions: the context is mutated in place, so it is returned
  also when the result is an error. \<open>try_finally\<close> runs the handler on every exit of
  the body; an error of the handler replaces the outcome of the body.
\<close>

definition bindR :: "'a render \<Rightarrow> ('a \<Rightarrow> 'b render) \<Rightarrow> 'b render" where
  "bindR m f c = (case m c of (Inl e, c') \<Rightarrow> (Inl e, c') | (Inr x, c') \<Rightarrow> f x c')"

definition try_finally :: "'a render \<Rightarrow> unit render \<Rightarrow> 'a render" where
  "try_finally body handler c =
     (case body c of (r, c') \<Rightarrow>
        (case handler c' of (Inl e, c'') \<Rightarrow> (Inl e, c'') | (Inr _, c'') \<Rightarrow> (r, c'')))"

text \<open>A list comprehension \<^verbatim>\<open>[f(x) for x in xs]\<close> whose body may raise.\<close>

fun mapR :: "('a \<Rightarrow> 'b render) \<Rightarrow> 'a list \<Rightarrow> 'b list render" where
  "mapR f [] c = (Inr [], c)"
| "mapR f (x # xs) c =
     (case f x c of
        (Inl e, c') \<Rightarrow> (Inl e, c')
      | (Inr y, c') \<Rightarrow>
          (case mapR f xs c' of
             (Inl e, c'') \<Rightarrow> (Inl e, c'')
           | (Inr ys, c'') \<Rightarrow> (Inr (y # ys), c'')))"

section \<open>Rendering to the nesting format (\<^verbatim>\<open>_to_sdf\<close>)\<close>

text \<open>
  No \<^verbatim>\<open>_to_sdf\<close> method of the source reads or writes the context it is handed, so
  each one is a function of the entity; \<open>to_sdf\<close> below threads the context.

  Modelled from the spec: the public \<^verbatim>\<open>to_sdf(ctx)\<close> and \<^verbatim>\<open>to_urdf(ctx)\<close> belong to
  \<^verbatim>\<open>StringConfigurable\<close> of \<^verbatim>\<open>lisdf.components.base\<close>, which is not among the source files.
  The spec gives every entity two rendering operations that take the context and return
  a fragment, so a call of \<^verbatim>\<open>x.to_sdf(ctx)\<close> is the \<^verbatim>\<open>_to_sdf\<close> of \<open>x\<close> on that context, and
  likewise for \<^verbatim>\<open>to_urdf\<close>.
\<close>

definition Inertia_to_sdf :: "env \<Rightarrow> inertia \<Rightarrow> string" where
  \<open>Inertia_to_sdf env i =
     ''<inertia>'' @ NL @
     ''  <ixx>'' @ float_str env (ixx i) @ ''</ixx>'' @ NL @
     ''  <ixy>'' @ float_str env (ixy i) @ ''</ixy>'' @ NL @
     ''  <ixz>'' @ float_str env (ixz i) @ ''</ixz>'' @ NL @
     ''  <iyy>'' @ float_str env (iyy i) @ ''</iyy>'' @ NL @
     ''  <iyz>'' @ float_str env (iyz i) @ ''</iyz>'' @ NL @
     ''  <izz>'' @ float_str env (izz i) @ ''</izz>'' @ NL @
     ''</inertia>''\<close>

definition Inertial_to_sdf :: "env \<Rightarrow> inertial \<Rightarrow> string" where
  \<open>Inertial_to_sdf env i =
     ''<inertial>'' @ NL @
     ''  <mass>'' @ float_str env (mass i) @ ''</mass>'' @ NL @
     ''  '' @ Pose_to_sdf env (inertial_pose i) @ NL @
     ''  '' @ py_strip (indent_text env (Inertia_to_sdf env (inertial_inertia i)) 1) @ NL @
     ''</inertial>''\<close>

definition SurfaceContact_to_sdf :: "surface_contact \<Rightarrow> string" where
  "SurfaceContact_to_sdf s = []"

definition SurfaceFriction_to_sdf :: "surface_friction \<Rightarrow> string" where
  "SurfaceFriction_to_sdf s = []"

definition SurfaceInfo_to_sdf :: "env \<Rightarrow> surface_info \<Rightarrow> string" where
  \<open>SurfaceInfo_to_sdf env s =
     ''<surface>'' @ NL @
     ''  '' @ (case contact s of
                 Some x \<Rightarrow> py_strip (indent_text env (SurfaceContact_to_sdf x) 1)
               | None \<Rightarrow> []) @ NL @
     ''  '' @ (case friction s of
                 Some x \<Rightarrow> py_strip (indent_text env (SurfaceFriction_to_sdf x) 1)
               | None \<Rightarrow> []) @ NL @
     ''</surface>''\<close>

definition Collision_to_sdf :: "env \<Rightarrow> collision \<Rightarrow> string" where
  \<open>Collision_to_sdf env g =
     ''<collision name="'' @ collision_name g @ ''">>'' @ NL @
     ''  '' @ (case collision_pose g of Some p \<Rightarrow> Pose_to_sdf env p | None \<Rightarrow> []) @ NL @
     ''  <geometry>'' @ NL @
     ''    '' @ py_strip (indent_text env (shape_sdf (collision_shape g)) 2) @ NL @
     ''  </geometry>'' @ NL @
     ''  '' @ (case surface g of
                 Some s \<Rightarrow> py_strip (indent_text env (SurfaceInfo_to_sdf env s) 1)
               | None \<Rightarrow> []) @ NL @
     ''</collision>''\<close>

definition Visual_to_sdf :: "env \<Rightarrow> visual \<Rightarrow> string" where
  \<open>Visual_to_sdf env g =
     ''<visual name="'' @ visual_name g @ ''">'' @ NL @
     ''  '' @ (case visual_pose g of Some p \<Rightarrow> Pose_to_sdf env p | None \<Rightarrow> []) @ NL @
     ''  <geometry>'' @ NL @
     ''    '' @ py_strip (indent_text env (shape_sdf (visual_shape g)) 2) @ NL @
     ''  </geometry>'' @ NL @
     ''  '' @ (case visual_material g of
                 Some m \<Rightarrow> py_strip (indent_text env (material_sdf m) 1)
               | None \<Rightarrow> []) @ NL @
     ''</visual>''\<close>

definition Link_to_sdf :: "env \<Rightarrow> link \<Rightarrow> string" where
  \<open>Link_to_sdf env l =
     (let collision_str = py_join NL (map (Collision_to_sdf env) (collisions l));
          visual_str = py_join NL (map (Visual_to_sdf env) (visuals l))
      in ''<link name="'' @ link_name l @ ''">'' @ NL @
         ''  '' @ (case link_pose l of Some p \<Rightarrow> Pose_to_sdf env p | None \<Rightarrow> []) @ NL @
         ''  '' @ (case link_inertial l of
                     Some i \<Rightarrow> py_strip (indent_text env (Inertial_to_sdf env i) 1)
                   | None \<Rightarrow> []) @ NL @
         ''  '' @ py_strip (indent_text env collision_str 1) @ NL @
         ''  '' @ py_strip (indent_text env visual_str 1) @ NL @
         ''</link>'')\<close>

definition Joint_to_sdf :: "env \<Rightarrow> joint \<Rightarrow> string" where
  \<open>Joint_to_sdf env j =
     (let name_str = (case joint_name j of Some n \<Rightarrow> '' name="'' @ n @ ''"'' | None \<Rightarrow> [])
      in ''<joint'' @ name_str @ '' type="'' @ joint_type (joint_joint_info j) @ ''">'' @ NL @
         ''  <parent>'' @ joint_parent j @ ''</parent>'' @ NL @
         ''  <child>'' @ joint_child j @ ''</child>'' @ NL @
         ''  '' @ Pose_to_sdf env (joint_pose j) @ NL @
         ''  '' @ py_strip (indent_text env (joint_info_sdf (joint_joint_info j)) 1) @ NL @
         ''  '' @ (case joint_control_info j of
                     Some k \<Rightarrow> py_strip (indent_text env (control_sdf k) 1)
                   | None \<Rightarrow> []) @ NL @
         ''</joint>'')\<close>

definition Model_to_sdf :: "env \<Rightarrow> model \<Rightarrow> string" where
  \<open>Model_to_sdf env m =
     (let link_str = py_join NL (map (Link_to_sdf env) (links m));
          joint_str = py_join NL (map (Joint_to_sdf env) (joints m))
      in ''<model name="'' @ model_name m @ ''">'' @ NL @
         ''  <static>'' @ py_str_bool (model_static m) @ ''</static>'' @ NL @
         ''  '' @ (case model_pose m of Some p \<Rightarrow> Pose_to_sdf env p | None \<Rightarrow> []) @ NL @
         ''  '' @ py_strip (indent_text env link_str 1) @ NL @
         ''  '' @ py_strip (indent_text env joint_str 1) @ NL @
         ''</model>'')\<close>

definition scale_str :: "env \<Rightarrow> sdf_include \<Rightarrow> string" where
  \<open>scale_str env i =
     (case scale1d i of
        Some s \<Rightarrow> ''<scale>'' @ float_str env s @ ''</scale>''
      | None \<Rightarrow>
          (case scale i of (s0, s1, s2) \<Rightarrow>
             ''<scale>'' @ float_str env s0 @ '' '' @ float_str env s1 @ '' ''
               @ float_str env s2 @ ''</scale>''))\<close>

definition SDFInclude_to_sdf :: "env \<Rightarrow> sdf_include \<Rightarrow> string" where
  \<open>SDFInclude_to_sdf env i =
     (let name_str = (case include_name i of Some n \<Rightarrow> '' name="'' @ n @ ''"'' | None \<Rightarrow> [])
      in ''<include'' @ name_str @ ''">'' @ NL @
         ''  <uri>'' @ uri i @ ''</uri>'' @ NL @
         ''  <static>'' @ py_str_bool (include_static i) @ ''</static>'' @ NL @
         ''  '' @ scale_str env i @ NL @
         ''  '' @ (case include_pose i of Some p \<Rightarrow> Pose_to_sdf env p | None \<Rightarrow> []) @ NL @
         ''</include>'')\<close>

definition JointAxisState_to_sdf :: "env \<Rightarrow> joint_axis_state \<Rightarrow> string" where
  \<open>JointAxisState_to_sdf env a =
     ''<angle axis="'' @ py_str_int (axis a) @ ''">'' @ float_str env (axis_value a) @ ''</angle>''\<close>

text \<open>The \<^verbatim>\<open>for\<close> loops of \<^verbatim>\<open>state.py\<close> append one stripped, indented line per child.\<close>

definition state_lines :: "env \<Rightarrow> string list \<Rightarrow> string" where
  "state_lines env xs = concat (map (\<lambda>x. py_strip (indent_text env x 1) @ NL) xs)"

definition JointState_to_sdf :: "env \<Rightarrow> joint_state \<Rightarrow> string" where
  \<open>JointState_to_sdf env s =
     ''<joint name="'' @ joint_state_name s @ ''">'' @ NL @
     state_lines env (map (JointAxisState_to_sdf env) (axis_states s)) @
     ''</joint>''\<close>

definition LinkState_to_sdf :: "env \<Rightarrow> link_state \<Rightarrow> string" where
  \<open>LinkState_to_sdf env s =
     ''<link name="'' @ link_state_name s @ ''">'' @ NL @
     (case link_state_pose s of
        Some p \<Rightarrow> py_strip (indent_text env (Pose_to_sdf env p) 1) @ NL
      | None \<Rightarrow> []) @
     ''</link>''\<close>

definition ModelState_to_sdf :: "env \<Rightarrow> model_state \<Rightarrow> string" where
  \<open>ModelState_to_sdf env s =
     ''<model name="'' @ model_state_name s @ ''">'' @ NL @
     (case model_state_pose s of
        Some p \<Rightarrow> py_strip (indent_text env (Pose_to_sdf env p) 1) @ NL
      | None \<Rightarrow> []) @
     state_lines env (map (JointState_to_sdf env) (joint_states s)) @
     state_lines env (map (LinkState_to_sdf env) (link_states s)) @
     ''</model>''\<close>

definition WorldState_to_sdf :: "env \<Rightarrow> world_state \<Rightarrow> string" where
  \<open>WorldState_to_sdf env s =
     ''<state world_name="'' @ world_state_name s @ ''">'' @ NL @
     state_lines env (map (ModelState_to_sdf env) (model_states s)) @
     ''</state>''\<close>

fun to_sdf :: "env \<Rightarrow> entity \<Rightarrow> string render" where
  "to_sdf env (E_Inertia x) c = (Inr (Inertia_to_sdf env x), c)"
| "to_sdf env (E_Inertial x) c = (Inr (Inertial_to_sdf env x), c)"
| "to_sdf env (E_SurfaceContact x) c = (Inr (SurfaceContact_to_sdf x), c)"
| "to_sdf env (E_SurfaceFriction x) c = (Inr (SurfaceFriction_to_sdf x), c)"
| "to_sdf env (E_SurfaceInfo x) c = (Inr (SurfaceInfo_to_sdf env x), c)"
| "to_sdf env (E_Collision x) c = (Inr (Collision_to_sdf env x), c)"
| "to_sdf env (E_Visual x) c = (Inr (Visual_to_sdf env x), c)"
| "to_sdf env (E_Link x) c = (Inr (Link_to_sdf env x), c)"
| "to_sdf env (E_Joint x) c = (Inr (Joint_to_sdf env x), c)"
| "to_sdf env (E_Model x) c = (Inr (Model_to_sdf env x), c)"
| "to_sdf env (E_SDFInclude x) c = (Inr (SDFInclude_to_sdf env x), c)"
| "to_sdf env (E_JointAxisState x) c = (Inr (JointAxisState_to_sdf env x), c)"
| "to_sdf env (E_JointState x) c = (Inr (JointState_to_sdf env x), c)"
| "to_sdf env (E_LinkState x) c = (Inr (LinkState_to_sdf env x), c)"
| "to_sdf env (E_ModelState x) c = (Inr (ModelState_to_sdf env x), c)"
| "to_sdf env (E_WorldState x) c = (Inr (WorldState_to_sdf env x), c)"

section \<open>Rendering to the flattening format (\<^verbatim>\<open>_to_urdf\<close>)\<close>

definition Inertia_to_urdf :: "env \<Rightarrow> inertia \<Rightarrow> string render" where
  \<open>Inertia_to_urdf env i c =
     (Inr (''<inertia ixx="'' @ float_str env (ixx i) @ ''"'' @
           '' ixy="'' @ float_str env (ixy i) @ ''" ixz="'' @ float_str env (ixz i) @ ''"'' @
           '' iyy="'' @ float_str env (iyy i) @ ''" iyz="'' @ float_str env (iyz i) @ ''"'' @
           '' izz="'' @ float_str env (izz i) @ ''" />''), c)\<close>

definition Inertial_to_urdf :: "env \<Rightarrow> inertial \<Rightarrow> string render" where
  \<open>Inertial_to_urdf env i c =
     (let pose_str = Pose_to_urdf env (pose_stack c) (inertial_pose i) in
      bindR (Inertia_to_urdf env (inertial_inertia i))
        (\<lambda>inertia_str c'.
           (Inr (''<inertial>'' @ NL @
                 ''  <mass value="'' @ float_str env (mass i) @ ''"></mass>'' @ NL @
                 ''  '' @ pose_str @ NL @
                 ''  '' @ py_strip (indent_text env inertia_str 1) @ NL @
                 ''</inertial>''), c')) c)\<close>

definition SurfaceContact_to_urdf :: "surface_contact \<Rightarrow> string render" where
  "SurfaceContact_to_urdf s c = (Inr [], c)"

definition SurfaceFriction_to_urdf :: "surface_friction \<Rightarrow> string render" where
  "SurfaceFriction_to_urdf s c = (Inr [], c)"

definition SurfaceInfo_to_urdf :: "surface_info \<Rightarrow> string render" where
  "SurfaceInfo_to_urdf s c =
     (Inr [], warning (E_SurfaceInfo s) ''Link surface properties are not supported in URDF.'' c)"

definition Collision_to_urdf :: "env \<Rightarrow> collision \<Rightarrow> string render" where
  \<open>Collision_to_urdf env g c =
     (let name = get_scoped_name env c (collision_name g) in
      case collision_pose g of
        None \<Rightarrow> (Inl (AttributeError ''to_urdf''), c)
      | Some p \<Rightarrow>
          (let pose_str = Pose_to_urdf env (pose_stack c) p;
               shape_str = py_strip (indent_text env (shape_urdf (collision_shape g)) 2)
           in bindR (case surface g of
                       Some s \<Rightarrow> bindR (SurfaceInfo_to_urdf s)
                                   (\<lambda>r c'. (Inr (py_strip (indent_text env r 1)), c'))
                     | None \<Rightarrow> (\<lambda>c'. (Inr [], c')))
                (\<lambda>surface_str c'.
                   (Inr (''<collision name="'' @ name @ ''">'' @ NL @
                         ''  '' @ pose_str @ NL @
                         ''  <geometry>'' @ NL @
                         ''    '' @ shape_str @ NL @
                         ''  </geometry>'' @ NL @
                         ''  '' @ surface_str @ NL @
                         ''</collision>''), c')) c))\<close>

definition Visual_to_material_urdf :: "env \<Rightarrow> visual \<Rightarrow> string render" where
  \<open>Visual_to_material_urdf env g c =
     (let name = get_scoped_name env c (visual_name g) in
      case visual_material g of
        Some m \<Rightarrow>
          (Inr (''<material name="'' @ name @ ''_material">'' @ NL @
                ''  '' @ py_strip (indent_text env (material_urdf m) 1) @ NL @
                ''</material>''), c)
      | None \<Rightarrow> (Inr [], c))\<close>

definition Visual_to_urdf :: "env \<Rightarrow> visual \<Rightarrow> string render" where
  \<open>Visual_to_urdf env g c =
     (let name = get_scoped_name env c (visual_name g) in
      bindR (case visual_material g of
               Some m \<Rightarrow> Visual_to_material_urdf env g
             | None \<Rightarrow> (\<lambda>c'. (Inr [], c')))
        (\<lambda>material_str c'.
           case visual_pose g of
             None \<Rightarrow> (Inl (AttributeError ''to_urdf''), c')
           | Some p \<Rightarrow>
               (Inr (''<visual name="'' @ name @ ''">'' @ NL @
                     ''  '' @ Pose_to_urdf env (pose_stack c') p @ NL @
                     ''  <geometry>'' @ NL @
                     ''    '' @ py_strip (indent_text env (shape_urdf (visual_shape g)) 2) @ NL @
                     ''  </geometry>'' @ NL @
                     ''  '' @ py_strip (indent_text env material_str 1) @ NL @
                     ''</visual>''), c')) c)\<close>

text \<open>
  \<^verbatim>\<open>Link._to_urdf\<close>: the push before the \<^verbatim>\<open>try\<close> is guarded by the pose being present,
  the pop in the \<^verbatim>\<open>finally\<close> is not.
\<close>

definition Link_urdf_enter :: "link \<Rightarrow> ctx \<Rightarrow> ctx" where
  "Link_urdf_enter l c = (case link_pose l of Some p \<Rightarrow> push_scoped_pose p c | None \<Rightarrow> c)"

definition Link_urdf_body :: "env \<Rightarrow> link \<Rightarrow> string render" where
  \<open>Link_urdf_body env l c =
     (let name = get_scoped_name env c (link_name l) in
      bindR (mapR (Collision_to_urdf env) (collisions l))
        (\<lambda>cs. bindR (mapR (Visual_to_urdf env) (visuals l))
           (\<lambda>vs. bindR (case link_inertial l of
                          Some i \<Rightarrow> bindR (Inertial_to_urdf env i)
                                      (\<lambda>r c'. (Inr (py_strip (indent_text env r 1)), c'))
                        | None \<Rightarrow> (\<lambda>c'. (Inr [], c')))
              (\<lambda>inertial_str c'.
                 (Inr (''<link name="'' @ name @ ''">'' @ NL @
                       ''  '' @ inertial_str @ NL @
                       ''  '' @ py_strip (indent_text env (py_join NL cs) 1) @ NL @
                       ''  '' @ py_strip (indent_text env (py_join NL vs) 1) @ NL @
                       ''</link>''), c')))) c)\<close>

definition Link_to_urdf :: "env \<Rightarrow> link \<Rightarrow> string render" where
  "Link_to_urdf env l c =
     try_finally (Link_urdf_body env l) (pop_scoped_pose env) (Link_urdf_enter l c)"

definition Joint_to_urdf :: "env \<Rightarrow> joint \<Rightarrow> string render" where
  \<open>Joint_to_urdf env j c =
     (case joint_name j of
        None \<Rightarrow> (Inl AssertionError, c)
      | Some n \<Rightarrow>
          (let name = get_scoped_name env c n;
               parent = get_scoped_name env c (joint_parent j);
               child = get_scoped_name env c (joint_child j)
           in (Inr (''<joint name="'' @ name @ ''" type="''
                      @ joint_type (joint_joint_info j) @ ''">'' @ NL @
                    ''  <parent link="'' @ parent @ ''"/>'' @ NL @
                    ''  <child link="'' @ child @ ''"/>'' @ NL @
                    ''  '' @ Pose_to_urdf env (pose_stack c) (joint_pose j) @ NL @
                    ''  '' @ py_strip (indent_text env (joint_info_urdf (joint_joint_info j)) 1) @ NL @
                    ''  '' @ (case joint_control_info j of
                                Some k \<Rightarrow> py_strip (indent_text env (control_urdf k) 1)
                              | None \<Rightarrow> []) @ NL @
                    ''</joint>''), c)))\<close>

text \<open>
  \<^verbatim>\<open>Model._to_urdf\<close>: three guarded warnings, the push of the name scope, the body under
  \<^verbatim>\<open>try\<close>, and the pop in the \<^verbatim>\<open>finally\<close>. The pose of the model is never pushed.
\<close>

definition Model_urdf_warn :: "model \<Rightarrow> ctx \<Rightarrow> ctx" where
  "Model_urdf_warn m c =
     (let c1 = (if model_pose m \<noteq> None
                then warning (E_Model m) ''Model::pose will be ignored in URDF.'' c else c);
          c2 = (if model_parent m \<noteq> None
                then warning (E_Model m) ''Model::parent will be ignored in URDF.'' c1 else c1)
      in (if model_static m
          then warning (E_Model m) ''Model::static will be ignored in URDF.'' c2 else c2))"

definition Model_urdf_enter :: "model \<Rightarrow> ctx \<Rightarrow> ctx" where
  "Model_urdf_enter m c = push_scoped_name (model_name m) (Model_urdf_warn m c)"

definition Model_urdf_body :: "env \<Rightarrow> model \<Rightarrow> string render" where
  \<open>Model_urdf_body env m c =
     bindR (mapR (Link_to_urdf env) (links m))
       (\<lambda>ls. bindR (mapR (Joint_to_urdf env) (joints m))
          (\<lambda>js c'.
             (Inr (''<robot name="'' @ model_name m @ ''">'' @ NL @
                   ''  '' @ py_strip (indent_text env (py_join NL ls) 1) @ NL @
                   ''  '' @ py_strip (indent_text env (py_join NL js) 1) @ NL @
                   ''</robot>''), c'))) c\<close>

definition Model_to_urdf :: "env \<Rightarrow> model \<Rightarrow> string render" where
  "Model_to_urdf env m c =
     try_finally (Model_urdf_body env m) (pop_scoped_name env) (Model_urdf_enter m c)"

definition SDFInclude_to_urdf :: "sdf_include \<Rightarrow> string render" where
  "SDFInclude_to_urdf i c = (Inl (ValueError ''Include tags is not supported for URDF.''), c)"

definition JointAxisState_to_urdf :: "joint_axis_state \<Rightarrow> string render" where
  "JointAxisState_to_urdf s c =
     (Inr [], warning (E_JointAxisState s) ''JointAxisState is not supported in URDF.'' c)"

definition JointState_to_urdf :: "joint_state \<Rightarrow> string render" where
  "JointState_to_urdf s c =
     (Inr [], warning (E_JointState s) ''JointState is not supported in URDF.'' c)"

definition LinkState_to_urdf :: "link_state \<Rightarrow> string render" where
  "LinkState_to_urdf s c =
     (Inr [], warning (E_LinkState s) ''LinkState is not supported in URDF.'' c)"

definition ModelState_to_urdf :: "model_state \<Rightarrow> string render" where
  "ModelState_to_urdf s c =
     (Inr [], warning (E_ModelState s) ''ModelState is not supported in URDF.'' c)"

definition WorldState_to_urdf :: "world_state \<Rightarrow> string render" where
  "WorldState_to_urdf s c =
     (Inr [], warning (E_WorldState s) ''WorldState is not supported in URDF.'' c)"

fun to_urdf :: "env \<Rightarrow> entity \<Rightarrow> string render" where
  "to_urdf env (E_Inertia x) c = Inertia_to_urdf env x c"
| "to_urdf env (E_Inertial x) c = Inertial_to_urdf env x c"
| "to_urdf env (E_SurfaceContact x) c = SurfaceContact_to_urdf x c"
| "to_urdf env (E_SurfaceFriction x) c = SurfaceFriction_to_urdf x c"
| "to_urdf env (E_SurfaceInfo x) c = SurfaceInfo_to_urdf x c"
| "to_urdf env (E_Collision x) c = Collision_to_urdf env x c"
| "to_urdf env (E_Visual x) c = Visual_to_urdf env x c"
| "to_urdf env (E_Link x) c = Link_to_urdf env x c"
| "to_urdf env (E_Joint x) c = Joint_to_urdf env x c"
| "to_urdf env (E_Model x) c = Model_to_urdf env x c"
| "to_urdf env (E_SDFInclude x) c = SDFInclude_to_urdf x c"
| "to_urdf env (E_JointAxisState x) c = JointAxisState_to_urdf x c"
| "to_urdf env (E_JointState x) c = JointState_to_urdf x c"
| "to_urdf env (E_LinkState x) c = LinkState_to_urdf x c"
| "to_urdf env (E_ModelState x) c = ModelState_to_urdf x c"
| "to_urdf env (E_WorldState x) c = WorldState_to_urdf x c"

section \<open>Constructors\<close>

definition Inertia_zeros :: inertia where
  "Inertia_zeros = \<lparr>ixx = 0, ixy = 0, ixz = 0, iyy = 0, iyz = 0, izz = 0\<rparr>"

definition Inertial_zeros :: inertial where
  "Inertial_zeros = \<lparr>mass = 0, inertial_pose = identity, inertial_inertia = Inertia_zeros\<rparr>"

text \<open>
  \<^verbatim>\<open>Link.from_simple_geom\<close>. \<^verbatim>\<open>ShapeInfo.from_type\<close> and the material class \<^verbatim>\<open>RGBA\<close> are not
  among the source files and are parameters; \<^verbatim>\<open>from_type\<close> may raise.
\<close>

definition from_simple_geom ::
  "(string \<Rightarrow> 'kw \<Rightarrow> error + shape_info) \<Rightarrow> (real \<Rightarrow> real \<Rightarrow> real \<Rightarrow> real \<Rightarrow> material) \<Rightarrow>
   string \<Rightarrow> pose \<Rightarrow> string \<Rightarrow> vector4f \<Rightarrow> inertial option \<Rightarrow> 'kw \<Rightarrow> error + link" where
  "from_simple_geom from_type RGBA name p shape_ty rgba inertial_arg kwargs =
     (let inertial' = (case inertial_arg of None \<Rightarrow> Inertial_zeros | Some i \<Rightarrow> i) in
      case from_type shape_ty kwargs of
        Inl e \<Rightarrow> Inl e
      | Inr shape \<Rightarrow>
          (case rgba of (r, g, b, a) \<Rightarrow>
             (let material' = RGBA r g b a in
              Inr \<lparr>link_name = name,
                   link_parent = None,
                   link_pose = None,
                   link_inertial = Some inertial',
                   collisions = [\<lparr>collision_name = name @ ''_collision'', collision_pose = Some p,
                                   collision_shape = shape, surface = None\<rparr>],
                   visuals = [\<lparr>visual_name = name @ ''_visual'', visual_pose = Some p,
                                visual_shape = shape, visual_material = Some material'\<rparr>],
                   sensors = []\<rparr>)))"

section \<open>Documents\<close>

text \<open>
  \<^verbatim>\<open>to_sdf()\<close> and \<^verbatim>\<open>to_urdf()\<close> without a context make a fresh one for the call; the
  document is the text, the diagnostics stay in the context.
\<close>

definition Model_to_sdf_xml :: "env \<Rightarrow> model \<Rightarrow> (error + string) \<times> ctx" where
  \<open>Model_to_sdf_xml env m =
     bindR (to_sdf env (E_Model m))
       (\<lambda>s c. (Inr (''<?xml version="1.0"?>'' @ NL @
                     ''<sdf version="1.9">'' @ NL @ s @ NL @ ''</sdf>''), c)) new_ctx\<close>

definition Model_to_urdf_xml :: "env \<Rightarrow> model \<Rightarrow> (error + string) \<times> ctx" where
  \<open>Model_to_urdf_xml env m =
     bindR (to_urdf env (E_Model m))
       (\<lambda>s c. (Inr (''<?xml version="1.0"?>'' @ NL @ s), c)) new_ctx\<close>

definition Model_of_link :: "link \<Rightarrow> model" where
  "Model_of_link l =
     \<lparr>model_name = link_name l, model_pose = None, model_parent = None, model_static = False,
      links = [] @ [l], joints = []\<rparr>"

definition Link_to_sdf_xml :: "env \<Rightarrow> link \<Rightarrow> (error + string) \<times> ctx" where
  "Link_to_sdf_xml env l = Model_to_sdf_xml env (Model_of_link l)"

definition Link_to_urdf_xml :: "env \<Rightarrow> link \<Rightarrow> (error + string) \<times> ctx" where
  "Link_to_urdf_xml env l = Model_to_urdf_xml env (Model_of_link l)"

section \<open>Sample data\<close>

definition sample_env :: env where
  \<open>sample_env =
     \<lparr>name_scope_sep = ''.'',
      pop_empty_raises = True,
      indent_text = (\<lambda>s n. concat (replicate n ''  '') @ s),
      float_str = (\<lambda>r. if r = 0 then ''0.0'' else if r = 1 then ''1.0'' else ''2.5''),
      Pose_to_sdf = (\<lambda>p. ''<pose/>''),
      Pose_to_urdf = (\<lambda>st p. if st = [] then ''<origin/>'' else ''<origin scoped="yes"/>'')\<rparr>\<close>

definition shifted :: pose where
  "shifted = \<lparr>pos = (1, 0, 0), quat_wxyz = (1, 0, 0, 0)\<rparr>"

definition sample_box :: shape_info where
  \<open>sample_box = \<lparr>shape_type = ''box'', shape_sdf = ''<box/>'', shape_urdf = ''<box />''\<rparr>\<close>

definition sample_from_type :: "string \<Rightarrow> unit \<Rightarrow> error + shape_info" where
  "sample_from_type t kw = (if t = ''box'' then Inr sample_box else Inl (ValueError t))"

definition sample_RGBA :: "real \<Rightarrow> real \<Rightarrow> real \<Rightarrow> real \<Rightarrow> material" where
  \<open>sample_RGBA r g b a =
     \<lparr>material_sdf = ''<diffuse/>'',
      material_urdf = (if a = 1 then ''<color opaque="yes"/>'' else ''<color/>'')\<rparr>\<close>

definition sample_link :: link where
  "sample_link =
     \<lparr>link_name = ''arm'', link_parent = None, link_pose = Some identity,
      link_inertial = None,
      collisions = [\<lparr>collision_name = ''arm_collision'', collision_pose = Some identity,
                      collision_shape = sample_box,
                      surface = Some \<lparr>contact = None, friction = Some SurfaceFriction\<rparr>\<rparr>],
      visuals = [\<lparr>visual_name = ''arm_visual'', visual_pose = Some identity,
                   visual_shape = sample_box, visual_material = None\<rparr>],
      sensors = []\<rparr>"

definition sample_joint :: joint where
  \<open>sample_joint =
     \<lparr>joint_name = Some ''hinge'', joint_parent = ''arm'', joint_child = ''hand'',
      joint_pose = identity,
      joint_joint_info = \<lparr>joint_type = ''fixed'', joint_info_sdf = [], joint_info_urdf = []\<rparr>,
      joint_control_info = None\<rparr>\<close>

definition sample_model :: model where
  "sample_model =
     \<lparr>model_name = ''robot'', model_pose = Some shifted, model_parent = Some ''world'',
      model_static = True, links = [sample_link], joints = [sample_joint]\<rparr>"

definition sample_include :: sdf_include where
  \<open>sample_include =
     \<lparr>include_name = Some ''table'', uri = ''model://table'', scale = (1, 1, 1),
      include_pose = None, include_parent = None, include_static = False, scale1d = None\<rparr>\<close>

section \<open>Relations between contexts, for the proofs\<close>

text \<open>same stacks, diagnostics only appended\<close>

definition grows :: "ctx \<Rightarrow> ctx \<Rightarrow> bool" where
  "grows a b = (name_stack b = name_stack a \<and> pose_stack b = pose_stack a
                \<and> prefix (warnings a) (warnings b))"

text \<open>name stack kept, an empty pose stack stays empty, diagnostics only appended\<close>

definition settles :: "ctx \<Rightarrow> ctx \<Rightarrow> bool" where
  "settles a b = (name_stack b = name_stack a \<and> (pose_stack a = [] \<longrightarrow> pose_stack b = [])
                  \<and> prefix (warnings a) (warnings b))"

definition broken_model :: model where
  "broken_model = sample_model\<lparr>joints := [sample_joint\<lparr>joint_name := None\<rparr>]\<rparr>"

text \<open>the two stacks agree\<close>

definition same_scope :: "ctx \<Rightarrow> ctx \<Rightarrow> bool" where
  "same_scope a b = (name_stack a = name_stack b \<and> pose_stack a = pose_stack b)"

text \<open>What \<open>get_scoped_name\<close> puts in front of a local name.\<close>

definition scope_prefix :: "env \<Rightarrow> string list \<Rightarrow> string" where
  "scope_prefix env ns = concat (map (\<lambda>s. s @ name_scope_sep env) ns)"

section \<open>How the renderers treat the context\<close>

lemma mapR_snd_cases:
  "snd (mapR f (x # xs) c) =
     (case fst (f x c) of Inl e \<Rightarrow> snd (f x c) | Inr y \<Rightarrow> snd (mapR f xs (snd (f x c))))"
  by (cases "f x c"; cases "fst (f x c)"; cases "mapR f xs (snd (f x c))";
      cases "fst (mapR f xs (snd (f x c)))"; simp)

lemma mapR_rel:
  assumes step: "\<And>x c. x \<in> set xs \<Longrightarrow> R c (snd (f x c))"
    and refl: "\<And>c. R c c"
    and trans: "\<And>a b c. R a b \<Longrightarrow> R b c \<Longrightarrow> R a c"
  shows "R c (snd (mapR f xs c))"
  using step
proof (induction xs arbitrary: c)
  case Nil
  show ?case by (simp add: refl)
next
  case (Cons x xs)
  have first: "R c (snd (f x c))" using Cons.prems by simp
  show ?case
  proof (cases "fst (f x c)")
    case (Inl e)
    then show ?thesis using first by (simp add: mapR_snd_cases del: mapR.simps)
  next
    case (Inr y)
    have "R (snd (f x c)) (snd (mapR f xs (snd (f x c))))"
      using Cons.IH Cons.prems by simp
    then show ?thesis using trans [OF first] Inr by (simp add: mapR_snd_cases del: mapR.simps)
  qed
qed

lemma grows_refl: "grows c c"
  by (simp add: grows_def)

lemma grows_trans: "grows a b \<Longrightarrow> grows b c \<Longrightarrow> grows a c"
  by (auto simp: grows_def)

lemma grows_warning: "grows c (warning e msg c)"
  by (simp add: grows_def warning_def)

lemma bindR_snd:
  "snd (bindR m f c) = (case fst (m c) of Inl e \<Rightarrow> snd (m c) | Inr x \<Rightarrow> snd (f x (snd (m c))))"
  by (cases "m c"; cases "fst (m c)"; simp add: bindR_def)

lemma bindR_fst:
  "fst (bindR m f c) = (case fst (m c) of Inl e \<Rightarrow> Inl e | Inr x \<Rightarrow> fst (f x (snd (m c))))"
  by (cases "m c"; cases "fst (m c)"; simp add: bindR_def)

lemma grows_bindR:
  assumes "grows c (snd (m c))" and "\<And>x c'. grows c' (snd (f x c'))"
  shows "grows c (snd (bindR m f c))"
  using assms by (auto simp: bindR_snd split: sum.splits intro: grows_trans)

lemma grows_SurfaceInfo: "grows c (snd (SurfaceInfo_to_urdf s c))"
  by (simp add: SurfaceInfo_to_urdf_def grows_warning)

lemma grows_Collision: "grows c (snd (Collision_to_urdf env g c))"
  unfolding Collision_to_urdf_def Let_def
  by (auto split: option.splits intro!: grows_bindR grows_SurfaceInfo simp: grows_refl)

lemma grows_Visual: "grows c (snd (Visual_to_urdf env g c))"
  unfolding Visual_to_urdf_def Visual_to_material_urdf_def Let_def
  by (auto split: option.splits intro!: grows_bindR simp: grows_refl)

lemma grows_Inertial: "grows c (snd (Inertial_to_urdf env i c))"
  unfolding Inertial_to_urdf_def Inertia_to_urdf_def Let_def
  by (auto intro!: grows_bindR simp: grows_refl)

lemma grows_mapR:
  assumes "\<And>x c. grows c (snd (f x c))"
  shows "grows c (snd (mapR f xs c))"
  by (rule mapR_rel [where R = grows]) (auto intro: assms grows_refl grows_trans)

lemma grows_Link_body: "grows c (snd (Link_urdf_body env l c))"
  unfolding Link_urdf_body_def Let_def
  by (auto split: option.splits
      intro!: grows_bindR grows_mapR grows_Collision grows_Visual grows_Inertial
      simp: grows_refl)

lemma grows_Joint: "grows c (snd (Joint_to_urdf env j c))"
  by (simp add: Joint_to_urdf_def Let_def grows_refl split: option.splits)

lemma try_finally_snd: "snd (try_finally body h c) = snd (h (snd (body c)))"
  by (cases "body c"; cases "h (snd (body c))"; cases "fst (h (snd (body c)))";
      simp add: try_finally_def)

lemma try_finally_fst:
  "fst (try_finally body h c) =
     (case fst (h (snd (body c))) of Inl e \<Rightarrow> Inl e | Inr u \<Rightarrow> fst (body c))"
  by (cases "body c"; cases "h (snd (body c))"; cases "fst (h (snd (body c)))";
      simp add: try_finally_def)

lemma pop_scoped_pose_snd:
  "snd (pop_scoped_pose env c) = c\<lparr>pose_stack := butlast (pose_stack c)\<rparr>"
  by (simp add: pop_scoped_pose_def)

lemma pop_scoped_name_snd:
  "snd (pop_scoped_name env c) = c\<lparr>name_stack := butlast (name_stack c)\<rparr>"
  by (simp add: pop_scoped_name_def)

lemma Link_urdf_enter_stacks:
  "name_stack (Link_urdf_enter l c) = name_stack c"
  "warnings (Link_urdf_enter l c) = warnings c"
  "pose_stack (Link_urdf_enter l c) =
     (case link_pose l of None \<Rightarrow> pose_stack c
      | Some p \<Rightarrow> pose_stack c @ [get_scoped_pose c p])"
  by (simp_all add: Link_urdf_enter_def push_scoped_pose_def split: option.splits)

lemma Link_to_urdf_stacks:
  "name_stack (snd (Link_to_urdf env l c)) = name_stack c"
  "pose_stack (snd (Link_to_urdf env l c)) =
     (if link_pose l = None then butlast (pose_stack c) else pose_stack c)"
  "prefix (warnings c) (warnings (snd (Link_to_urdf env l c)))"
proof -
  have g: "grows (Link_urdf_enter l c) (snd (Link_urdf_body env l (Link_urdf_enter l c)))"
    by (rule grows_Link_body)
  show "name_stack (snd (Link_to_urdf env l c)) = name_stack c"
    using g by (simp add: Link_to_urdf_def try_finally_snd pop_scoped_pose_snd grows_def
        Link_urdf_enter_stacks)
  show "pose_stack (snd (Link_to_urdf env l c)) =
     (if link_pose l = None then butlast (pose_stack c) else pose_stack c)"
    using g by (auto simp: Link_to_urdf_def try_finally_snd pop_scoped_pose_snd grows_def
        Link_urdf_enter_stacks split: option.splits)
  show "prefix (warnings c) (warnings (snd (Link_to_urdf env l c)))"
    using g by (simp add: Link_to_urdf_def try_finally_snd pop_scoped_pose_snd grows_def
        Link_urdf_enter_stacks)
qed

lemma settles_refl: "settles c c"
  by (simp add: settles_def)

lemma settles_trans: "settles a b \<Longrightarrow> settles b c \<Longrightarrow> settles a c"
  by (auto simp: settles_def)

lemma grows_settles: "grows a b \<Longrightarrow> settles a b"
  by (simp add: grows_def settles_def)

lemma settles_Link: "settles c (snd (Link_to_urdf env l c))"
  by (simp add: settles_def Link_to_urdf_stacks)

lemma Model_urdf_warn_stacks:
  "name_stack (Model_urdf_warn m c) = name_stack c"
  "pose_stack (Model_urdf_warn m c) = pose_stack c"
  by (simp_all add: Model_urdf_warn_def warning_def Let_def)

lemma Model_urdf_warn_warnings:
  "warnings (Model_urdf_warn m c) = warnings c
     @ (if model_pose m \<noteq> None then [(E_Model m, ''Model::pose will be ignored in URDF.'')] else [])
     @ (if model_parent m \<noteq> None then [(E_Model m, ''Model::parent will be ignored in URDF.'')] else [])
     @ (if model_static m then [(E_Model m, ''Model::static will be ignored in URDF.'')] else [])"
  by (simp add: Model_urdf_warn_def warning_def Let_def)

lemma Model_urdf_enter_stacks:
  "name_stack (Model_urdf_enter m c) = name_stack c @ [model_name m]"
  "pose_stack (Model_urdf_enter m c) = pose_stack c"
  "warnings (Model_urdf_enter m c) = warnings (Model_urdf_warn m c)"
  by (simp_all add: Model_urdf_enter_def push_scoped_name_def Model_urdf_warn_stacks)

lemma settles_bindR:
  assumes "settles c (snd (m c))" and "\<And>x c'. settles c' (snd (f x c'))"
  shows "settles c (snd (bindR m f c))"
  using assms by (auto simp: bindR_snd split: sum.splits intro: settles_trans)

lemma settles_mapR:
  assumes "\<And>x c. settles c (snd (f x c))"
  shows "settles c (snd (mapR f xs c))"
proof (rule mapR_rel [where R = settles])
  show "\<And>x c. x \<in> set xs \<Longrightarrow> settles c (snd (f x c))" by (rule assms)
  show "\<And>c. settles c c" by (rule settles_refl)
  show "\<And>a b c. settles a b \<Longrightarrow> settles b c \<Longrightarrow> settles a c" by (rule settles_trans)
qed

lemma settles_Model_body: "settles c (snd (Model_urdf_body env m c))"
  unfolding Model_urdf_body_def
  apply (rule settles_bindR)
   apply (rule settles_mapR)
   apply (rule settles_Link)
  apply (rule settles_bindR)
   apply (rule settles_mapR)
   apply (rule grows_settles [OF grows_Joint])
  apply (simp add: settles_refl)
  done

lemma Model_to_urdf_stacks:
  "name_stack (snd (Model_to_urdf env m c)) = name_stack c"
  "pose_stack c = [] \<Longrightarrow> pose_stack (snd (Model_to_urdf env m c)) = []"
  "prefix (warnings (Model_urdf_warn m c)) (warnings (snd (Model_to_urdf env m c)))"
  using settles_Model_body [of "Model_urdf_enter m c" env m]
  by (simp_all add: Model_to_urdf_def try_finally_snd pop_scoped_name_snd settles_def
      Model_urdf_enter_stacks)

lemma to_urdf_name_stack: "name_stack (snd (to_urdf env e c)) = name_stack c"
proof (cases e)
  case (E_Inertial x) then show ?thesis using grows_Inertial [of c env x] by (simp add: grows_def)
next
  case (E_Collision x) then show ?thesis using grows_Collision [of c env x] by (simp add: grows_def)
next
  case (E_Visual x) then show ?thesis using grows_Visual [of c env x] by (simp add: grows_def)
next
  case (E_Link x) then show ?thesis by (simp add: Link_to_urdf_stacks)
next
  case (E_Joint x) then show ?thesis using grows_Joint [of c env x] by (simp add: grows_def)
next
  case (E_Model x) then show ?thesis by (simp add: Model_to_urdf_stacks)
qed (simp_all add: Inertia_to_urdf_def SurfaceContact_to_urdf_def SurfaceFriction_to_urdf_def
        SurfaceInfo_to_urdf_def SDFInclude_to_urdf_def JointAxisState_to_urdf_def
        JointState_to_urdf_def LinkState_to_urdf_def ModelState_to_urdf_def
        WorldState_to_urdf_def warning_def)

lemma to_urdf_pose_stack:
  assumes "pose_stack c = []"
  shows "pose_stack (snd (to_urdf env e c)) = []"
proof (cases e)
  case (E_Inertial x) then show ?thesis using assms grows_Inertial [of c env x] by (simp add: grows_def)
next
  case (E_Collision x) then show ?thesis using assms grows_Collision [of c env x] by (simp add: grows_def)
next
  case (E_Visual x) then show ?thesis using assms grows_Visual [of c env x] by (simp add: grows_def)
next
  case (E_Link x) then show ?thesis using assms by (simp add: Link_to_urdf_stacks)
next
  case (E_Joint x) then show ?thesis using assms grows_Joint [of c env x] by (simp add: grows_def)
next
  case (E_Model x) then show ?thesis using assms by (simp add: Model_to_urdf_stacks)
qed (simp_all add: assms Inertia_to_urdf_def SurfaceContact_to_urdf_def SurfaceFriction_to_urdf_def
        SurfaceInfo_to_urdf_def SDFInclude_to_urdf_def JointAxisState_to_urdf_def
        JointState_to_urdf_def LinkState_to_urdf_def ModelState_to_urdf_def
        WorldState_to_urdf_def warning_def)

lemma to_sdf_snd: "snd (to_sdf env e c) = c"
  by (cases e) simp_all

text \<open>A render that fails in the middle of the traversal: the joint has no name.\<close>

lemma broken_model_fails:
  "fst (to_urdf sample_env (E_Model broken_model) new_ctx) = Inl AssertionError"
  by (simp add: broken_model_def sample_model_def sample_link_def sample_joint_def
      sample_env_def sample_box_def new_ctx_def Model_to_urdf_def Model_urdf_body_def
      Model_urdf_enter_def Model_urdf_warn_def Link_to_urdf_def Link_urdf_body_def
      Link_urdf_enter_def Collision_to_urdf_def Visual_to_urdf_def SurfaceInfo_to_urdf_def
      Joint_to_urdf_def try_finally_def bindR_def push_scoped_name_def pop_scoped_name_def
      push_scoped_pose_def pop_scoped_pose_def get_scoped_name_def get_scoped_pose_def
      warning_def Let_def)

section \<open>The fragment depends on the stacks only; when a render succeeds\<close>

lemma py_join_snoc:
  "py_join sep (xs @ [x]) = concat (map (\<lambda>s. s @ sep) xs) @ x"
  by (induction sep xs rule: py_join.induct) simp_all

lemma get_scoped_name_prefix:
  "get_scoped_name env c x = concat (map (\<lambda>s. s @ name_scope_sep env) (name_stack c)) @ x"
  by (simp add: get_scoped_name_def py_join_snoc)

lemma mapR_fst_cases:
  "fst (mapR f (x # xs) c) =
     (case fst (f x c) of Inl e \<Rightarrow> Inl e
      | Inr y \<Rightarrow> (case fst (mapR f xs (snd (f x c))) of Inl e \<Rightarrow> Inl e
                  | Inr ys \<Rightarrow> Inr (y # ys)))"
  by (cases "f x c"; cases "fst (f x c)"; cases "mapR f xs (snd (f x c))";
      cases "fst (mapR f xs (snd (f x c)))"; simp)

lemma mapR_cong:
  assumes step: "\<And>x a b. x \<in> set xs \<Longrightarrow> S a b \<Longrightarrow>
                   fst (f x a) = fst (f x b) \<and> S (snd (f x a)) (snd (f x b))"
    and start: "S a b"
  shows "fst (mapR f xs a) = fst (mapR f xs b) \<and> S (snd (mapR f xs a)) (snd (mapR f xs b))"
  using step start
proof (induction xs arbitrary: a b)
  case Nil
  then show ?case by simp
next
  case (Cons x xs)
  have head: "fst (f x a) = fst (f x b)" "S (snd (f x a)) (snd (f x b))"
    using Cons.prems by simp_all
  have rest: "fst (mapR f xs (snd (f x a))) = fst (mapR f xs (snd (f x b)))
      \<and> S (snd (mapR f xs (snd (f x a)))) (snd (mapR f xs (snd (f x b))))"
    by (rule Cons.IH) (use Cons.prems head in simp_all)
  show ?case
    using head rest
    by (simp add: mapR_fst_cases mapR_snd_cases del: mapR.simps split: sum.splits)
qed

lemma bindR_fst_cong:
  assumes "fst (m a) = fst (m b)" and "S (snd (m a)) (snd (m b))"
    and "\<And>x a' b'. S a' b' \<Longrightarrow> fst (f x a') = fst (f x b')"
  shows "fst (bindR m f a) = fst (bindR m f b)"
  using assms by (simp add: bindR_fst split: sum.splits)

lemma same_scope_grows:
  assumes "same_scope a b" and "grows a a'" and "grows b b'"
  shows "same_scope a' b'"
  using assms by (simp add: same_scope_def grows_def)

lemma Collision_fst_cong:
  assumes "same_scope a b"
  shows "fst (Collision_to_urdf env g a) = fst (Collision_to_urdf env g b)"
  using assms
  by (simp add: Collision_to_urdf_def Let_def same_scope_def get_scoped_name_def bindR_fst
      SurfaceInfo_to_urdf_def split: option.splits)

lemma Visual_fst_cong:
  assumes "same_scope a b"
  shows "fst (Visual_to_urdf env g a) = fst (Visual_to_urdf env g b)"
  using assms
  by (simp add: Visual_to_urdf_def Visual_to_material_urdf_def Let_def same_scope_def
      get_scoped_name_def bindR_fst bindR_snd split: option.splits)

lemma Inertial_fst_cong:
  assumes "same_scope a b"
  shows "fst (Inertial_to_urdf env i a) = fst (Inertial_to_urdf env i b)"
  using assms
  by (simp add: Inertial_to_urdf_def Inertia_to_urdf_def Let_def same_scope_def bindR_fst)

lemma Joint_fst_cong:
  assumes "same_scope a b"
  shows "fst (Joint_to_urdf env j a) = fst (Joint_to_urdf env j b)"
  using assms
  by (simp add: Joint_to_urdf_def Let_def same_scope_def get_scoped_name_def split: option.splits)

lemma Collisions_cong:
  assumes "same_scope a b"
  shows "fst (mapR (Collision_to_urdf env) gs a) = fst (mapR (Collision_to_urdf env) gs b)
       \<and> same_scope (snd (mapR (Collision_to_urdf env) gs a)) (snd (mapR (Collision_to_urdf env) gs b))"
proof (rule mapR_cong [where S = same_scope])
  show "same_scope a b" by (rule assms)
next
  fix x a b assume "same_scope a b"
  then show "fst (Collision_to_urdf env x a) = fst (Collision_to_urdf env x b) \<and>
       same_scope (snd (Collision_to_urdf env x a)) (snd (Collision_to_urdf env x b))"
    using Collision_fst_cong same_scope_grows grows_Collision by blast
qed

lemma Visuals_cong:
  assumes "same_scope a b"
  shows "fst (mapR (Visual_to_urdf env) gs a) = fst (mapR (Visual_to_urdf env) gs b)
       \<and> same_scope (snd (mapR (Visual_to_urdf env) gs a)) (snd (mapR (Visual_to_urdf env) gs b))"
proof (rule mapR_cong [where S = same_scope])
  show "same_scope a b" by (rule assms)
next
  fix x a b assume "same_scope a b"
  then show "fst (Visual_to_urdf env x a) = fst (Visual_to_urdf env x b) \<and>
       same_scope (snd (Visual_to_urdf env x a)) (snd (Visual_to_urdf env x b))"
    using Visual_fst_cong same_scope_grows grows_Visual by blast
qed

lemma Link_body_fst_cong:
  assumes "same_scope a b"
  shows "fst (Link_urdf_body env l a) = fst (Link_urdf_body env l b)"
proof -
  have n: "get_scoped_name env a (link_name l) = get_scoped_name env b (link_name l)"
    using assms by (simp add: same_scope_def get_scoped_name_def)
  show ?thesis
    unfolding Link_urdf_body_def Let_def n
    apply (rule bindR_fst_cong [where S = same_scope])
      apply (simp add: Collisions_cong [OF assms])
     apply (simp add: Collisions_cong [OF assms])
    apply (rule bindR_fst_cong [where S = same_scope])
      apply (simp add: Visuals_cong)
     apply (simp add: Visuals_cong)
    subgoal for cs a' b' vs a'' b''
      using Inertial_fst_cong [of a'' b'']
      by (simp add: bindR_fst split: option.splits sum.splits)
    done
qed

lemma Link_fst_cong:
  assumes "same_scope a b"
  shows "fst (Link_to_urdf env l a) = fst (Link_to_urdf env l b)"
proof -
  have e: "same_scope (Link_urdf_enter l a) (Link_urdf_enter l b)"
    using assms
    by (simp add: same_scope_def Link_urdf_enter_stacks get_scoped_pose_def split: option.splits)
  have body: "fst (Link_urdf_body env l (Link_urdf_enter l a))
      = fst (Link_urdf_body env l (Link_urdf_enter l b))"
    by (rule Link_body_fst_cong [OF e])
  have after: "same_scope (snd (Link_urdf_body env l (Link_urdf_enter l a)))
      (snd (Link_urdf_body env l (Link_urdf_enter l b)))"
    by (rule same_scope_grows [OF e grows_Link_body grows_Link_body])
  have pop: "fst (pop_scoped_pose env (snd (Link_urdf_body env l (Link_urdf_enter l a))))
      = fst (pop_scoped_pose env (snd (Link_urdf_body env l (Link_urdf_enter l b))))"
    using after by (simp add: pop_scoped_pose_def same_scope_def)
  show ?thesis
    by (simp add: Link_to_urdf_def try_finally_fst body pop split: sum.splits)
qed

lemma Link_cong:
  assumes "same_scope a b"
  shows "fst (Link_to_urdf env l a) = fst (Link_to_urdf env l b)
       \<and> same_scope (snd (Link_to_urdf env l a)) (snd (Link_to_urdf env l b))"
  using assms Link_fst_cong [OF assms]
  by (simp add: same_scope_def Link_to_urdf_stacks)

lemma Joint_cong:
  assumes "same_scope a b"
  shows "fst (Joint_to_urdf env j a) = fst (Joint_to_urdf env j b)
       \<and> same_scope (snd (Joint_to_urdf env j a)) (snd (Joint_to_urdf env j b))"
  using Joint_fst_cong [OF assms] same_scope_grows [OF assms grows_Joint grows_Joint]
  by simp

lemma Model_body_cong:
  assumes "same_scope a b"
  shows "fst (Model_urdf_body env m a) = fst (Model_urdf_body env m b)"
  unfolding Model_urdf_body_def
  apply (rule bindR_fst_cong [where S = same_scope])
    apply (simp add: mapR_cong [where S = same_scope, OF Link_cong assms])
   apply (simp add: mapR_cong [where S = same_scope, OF Link_cong assms])
  apply (rule bindR_fst_cong [where S = same_scope])
    apply (simp add: mapR_cong [where S = same_scope, OF Joint_cong])
   apply (simp add: mapR_cong [where S = same_scope, OF Joint_cong])
  apply simp
  done

lemma Model_fst_cong:
  assumes "same_scope a b"
  shows "fst (Model_to_urdf env m a) = fst (Model_to_urdf env m b)"
proof -
  have e: "same_scope (Model_urdf_enter m a) (Model_urdf_enter m b)"
    using assms by (simp add: same_scope_def Model_urdf_enter_stacks)
  have body: "fst (Model_urdf_body env m (Model_urdf_enter m a))
      = fst (Model_urdf_body env m (Model_urdf_enter m b))"
    by (rule Model_body_cong [OF e])
  have names: "name_stack (snd (Model_urdf_body env m (Model_urdf_enter m a)))
      = name_stack (snd (Model_urdf_body env m (Model_urdf_enter m b)))"
    using settles_Model_body [of "Model_urdf_enter m a" env m]
      settles_Model_body [of "Model_urdf_enter m b" env m] e
    by (simp add: settles_def same_scope_def)
  have pop: "fst (pop_scoped_name env (snd (Model_urdf_body env m (Model_urdf_enter m a))))
      = fst (pop_scoped_name env (snd (Model_urdf_body env m (Model_urdf_enter m b))))"
    using names by (simp add: pop_scoped_name_def)
  show ?thesis
    by (simp add: Model_to_urdf_def try_finally_fst body pop split: sum.splits)
qed

lemma to_urdf_fst_cong:
  assumes "same_scope a b"
  shows "fst (to_urdf env e a) = fst (to_urdf env e b)"
proof (cases e)
  case (E_Inertial x) then show ?thesis using Inertial_fst_cong [OF assms] by simp
next
  case (E_Collision x) then show ?thesis using Collision_fst_cong [OF assms] by simp
next
  case (E_Visual x) then show ?thesis using Visual_fst_cong [OF assms] by simp
next
  case (E_Link x) then show ?thesis using Link_fst_cong [OF assms] by simp
next
  case (E_Joint x) then show ?thesis using Joint_fst_cong [OF assms] by simp
next
  case (E_Model x) then show ?thesis using Model_fst_cong [OF assms] by simp
qed (simp_all add: Inertia_to_urdf_def SurfaceContact_to_urdf_def SurfaceFriction_to_urdf_def
        SurfaceInfo_to_urdf_def SDFInclude_to_urdf_def JointAxisState_to_urdf_def
        JointState_to_urdf_def LinkState_to_urdf_def ModelState_to_urdf_def
        WorldState_to_urdf_def)

lemma to_sdf_fst: "fst (to_sdf env e a) = fst (to_sdf env e b)"
  by (cases e) simp_all

lemma mapR_ok:
  assumes "\<And>x c. x \<in> set xs \<Longrightarrow> \<exists>y. fst (f x c) = Inr y"
  shows "\<exists>ys. fst (mapR f xs c) = Inr ys"
  using assms
proof (induction xs arbitrary: c)
  case Nil
  then show ?case by simp
next
  case (Cons x xs)
  obtain y where y: "fst (f x c) = Inr y" using Cons.prems by auto
  obtain ys where ys: "fst (mapR f xs (snd (f x c))) = Inr ys"
    using Cons.IH Cons.prems by (meson list.set_intros(2))
  show ?case
    using y ys by (simp add: mapR_fst_cases del: mapR.simps)
qed

lemma Collision_ok:
  assumes "collision_pose g \<noteq> None"
  shows "\<exists>s. fst (Collision_to_urdf env g c) = Inr s"
  using assms
  by (auto simp: Collision_to_urdf_def Let_def bindR_fst SurfaceInfo_to_urdf_def
      split: option.splits)

lemma Visual_ok:
  assumes "visual_pose g \<noteq> None"
  shows "\<exists>s. fst (Visual_to_urdf env g c) = Inr s"
  using assms
  by (auto simp: Visual_to_urdf_def Visual_to_material_urdf_def Let_def bindR_fst
      split: option.splits)

lemma Link_body_ok:
  assumes "\<forall>g\<in>set (collisions l). collision_pose g \<noteq> None"
    and "\<forall>g\<in>set (visuals l). visual_pose g \<noteq> None"
  shows "\<exists>s. fst (Link_urdf_body env l c) = Inr s"
proof -
  obtain cs where cs: "fst (mapR (Collision_to_urdf env) (collisions l) c) = Inr cs"
    using mapR_ok [of "collisions l" "Collision_to_urdf env" c] assms(1) Collision_ok by blast
  obtain vs where vs: "fst (mapR (Visual_to_urdf env) (visuals l)
      (snd (mapR (Collision_to_urdf env) (collisions l) c))) = Inr vs"
    using mapR_ok [of "visuals l" "Visual_to_urdf env"] assms(2) Visual_ok by blast
  show ?thesis
    using cs vs
    by (simp add: Link_urdf_body_def Let_def bindR_fst bindR_snd Inertial_to_urdf_def
        Inertia_to_urdf_def split: option.splits)
qed

lemma Link_ok:
  assumes "link_pose l \<noteq> None \<or> \<not> pop_empty_raises env"
    and "\<forall>g\<in>set (collisions l). collision_pose g \<noteq> None"
    and "\<forall>g\<in>set (visuals l). visual_pose g \<noteq> None"
  shows "\<exists>s. fst (Link_to_urdf env l c) = Inr s"
proof -
  let ?c1 = "Link_urdf_enter l c"
  obtain s where s: "fst (Link_urdf_body env l ?c1) = Inr s"
    using Link_body_ok [OF assms(2,3)] by blast
  have "pose_stack (snd (Link_urdf_body env l ?c1)) = pose_stack ?c1"
    using grows_Link_body [of ?c1 env l] by (simp add: grows_def)
  then have "\<exists>u. fst (pop_scoped_pose env (snd (Link_urdf_body env l ?c1))) = Inr u"
    using assms(1)
    by (auto simp: pop_scoped_pose_def Link_urdf_enter_stacks split: option.splits)
  then show ?thesis
    using s by (auto simp: Link_to_urdf_def try_finally_fst)
qed

lemma Joint_ok:
  assumes "joint_name j \<noteq> None"
  shows "\<exists>s. fst (Joint_to_urdf env j c) = Inr s"
  using assms by (auto simp: Joint_to_urdf_def Let_def)

lemma Model_ok:
  assumes "\<forall>l\<in>set (links m). (link_pose l \<noteq> None \<or> \<not> pop_empty_raises env)
              \<and> (\<forall>g\<in>set (collisions l). collision_pose g \<noteq> None)
              \<and> (\<forall>g\<in>set (visuals l). visual_pose g \<noteq> None)"
    and "\<forall>j\<in>set (joints m). joint_name j \<noteq> None"
  shows "\<exists>s. fst (Model_to_urdf env m c) = Inr s"
proof -
  let ?c0 = "Model_urdf_enter m c"
  obtain ls where ls: "fst (mapR (Link_to_urdf env) (links m) ?c0) = Inr ls"
    using mapR_ok [of "links m" "Link_to_urdf env" ?c0] assms(1) Link_ok by blast
  obtain js where js: "fst (mapR (Joint_to_urdf env) (joints m)
      (snd (mapR (Link_to_urdf env) (links m) ?c0))) = Inr js"
    using mapR_ok [of "joints m" "Joint_to_urdf env"] assms(2) Joint_ok by blast
  have body: "\<exists>s. fst (Model_urdf_body env m ?c0) = Inr s"
    using ls js by (simp add: Model_urdf_body_def bindR_fst bindR_snd)
  have "name_stack (snd (Model_urdf_body env m ?c0)) = name_stack c @ [model_name m]"
    using settles_Model_body [of ?c0 env m] by (simp add: settles_def Model_urdf_enter_stacks)
  then have "\<exists>u. fst (pop_scoped_name env (snd (Model_urdf_body env m ?c0))) = Inr u"
    by (simp add: pop_scoped_name_def)
  then show ?thesis
    using body by (auto simp: Model_to_urdf_def try_finally_fst)
qed

lemma Model_ignored_fields_fst:
  "fst (Model_to_urdf env (m\<lparr>model_pose := None, model_parent := None, model_static := False\<rparr>) c)
     = fst (Model_to_urdf env m c)"
proof -
  let ?m' = "m\<lparr>model_pose := None, model_parent := None, model_static := False\<rparr>"
  have body: "Model_urdf_body env ?m' = Model_urdf_body env m"
    by (rule ext) (simp add: Model_urdf_body_def)
  have e: "same_scope (Model_urdf_enter ?m' c) (Model_urdf_enter m c)"
    by (simp add: same_scope_def Model_urdf_enter_stacks)
  have b: "fst (Model_urdf_body env m (Model_urdf_enter ?m' c))
      = fst (Model_urdf_body env m (Model_urdf_enter m c))"
    by (rule Model_body_cong [OF e])
  have names: "name_stack (snd (Model_urdf_body env m (Model_urdf_enter ?m' c)))
      = name_stack (snd (Model_urdf_body env m (Model_urdf_enter m c)))"
    using settles_Model_body [of "Model_urdf_enter ?m' c" env m]
      settles_Model_body [of "Model_urdf_enter m c" env m] e
    by (simp add: settles_def same_scope_def)
  have pop: "fst (pop_scoped_name env (snd (Model_urdf_body env m (Model_urdf_enter ?m' c))))
      = fst (pop_scoped_name env (snd (Model_urdf_body env m (Model_urdf_enter m c))))"
    using names by (simp add: pop_scoped_name_def)
  show ?thesis
    unfolding Model_to_urdf_def try_finally_fst body
    by (simp add: b pop split: sum.splits)
qed

lemma get_scoped_name_scope_prefix:
  "get_scoped_name env c x = scope_prefix env (name_stack c) @ x"
  by (simp add: get_scoped_name_prefix scope_prefix_def)

lemma mapR_nth:
  assumes inv: "\<And>x c. x \<in> set xs \<Longrightarrow> proj (snd (f x c)) = proj c"
    and ok: "fst (mapR f xs c) = Inr ys"
  shows "length ys = length xs
       \<and> (\<forall>i<length xs. \<exists>ci. proj ci = proj c \<and> fst (f (xs ! i) ci) = Inr (ys ! i))"
  using inv ok
proof (induction xs arbitrary: c ys)
  case Nil
  then show ?case by simp
next
  case (Cons x xs)
  from Cons.prems(2) obtain y ys' where
    y: "fst (f x c) = Inr y" and
    ys': "fst (mapR f xs (snd (f x c))) = Inr ys'" and
    eq: "ys = y # ys'"
    by (auto simp: mapR_fst_cases simp del: mapR.simps split: sum.splits)
  have p: "proj (snd (f x c)) = proj c"
    using Cons.prems(1) by simp
  have ih: "length ys' = length xs
       \<and> (\<forall>i<length xs. \<exists>ci. proj ci = proj (snd (f x c)) \<and> fst (f (xs ! i) ci) = Inr (ys' ! i))"
    by (rule Cons.IH [OF _ ys']) (use Cons.prems(1) in simp)
  have "\<exists>ci. proj ci = proj c \<and> fst (f ((x # xs) ! i) ci) = Inr (ys ! i)"
    if "i < length (x # xs)" for i
  proof (cases i)
    case 0
    then show ?thesis using y eq by auto
  next
    case (Suc k)
    then show ?thesis using ih that p eq by auto
  qed
  then show ?case using ih eq by simp
qed

lemma Link_opens:
  assumes "fst (Link_to_urdf env l c) = Inr t"
  shows "\<exists>rest. t = ''<link name=\"'' @ scope_prefix env (name_stack c) @ link_name l @ ''\">'' @ rest"
proof -
  have b: "fst (Link_urdf_body env l (Link_urdf_enter l c)) = Inr t"
    using assms by (auto simp: Link_to_urdf_def try_finally_fst split: sum.splits)
  then show ?thesis
    unfolding Link_urdf_body_def Let_def
    by (auto simp: bindR_fst get_scoped_name_scope_prefix Link_urdf_enter_stacks
        split: sum.splits)
qed

lemma Joint_opens:
  assumes "fst (Joint_to_urdf env j c) = Inr t"
  shows "\<exists>n rest. joint_name j = Some n
       \<and> t = ''<joint name=\"'' @ scope_prefix env (name_stack c) @ n @ ''\" type=\"''
               @ joint_type (joint_joint_info j) @ ''\">'' @ NL @
             ''  <parent link=\"'' @ scope_prefix env (name_stack c) @ joint_parent j @ ''\"/>'' @ NL @
             ''  <child link=\"'' @ scope_prefix env (name_stack c) @ joint_child j @ ''\"/>'' @ NL @
             rest"
  using assms
  by (auto simp: Joint_to_urdf_def Let_def get_scoped_name_scope_prefix split: option.splits)

lemma Model_body_parts:
  assumes "fst (Model_to_urdf env m c) = Inr s"
  shows "\<exists>ls js. fst (mapR (Link_to_urdf env) (links m) (Model_urdf_enter m c)) = Inr ls
       \<and> fst (mapR (Joint_to_urdf env) (joints m)
              (snd (mapR (Link_to_urdf env) (links m) (Model_urdf_enter m c)))) = Inr js
       \<and> s = ''<robot name=\"'' @ model_name m @ ''\">'' @ NL @
              ''  '' @ py_strip (indent_text env (py_join NL ls) 1) @ NL @
              ''  '' @ py_strip (indent_text env (py_join NL js) 1) @ NL @
              ''</robot>''"
proof -
  have "fst (Model_urdf_body env m (Model_urdf_enter m c)) = Inr s"
    using assms by (auto simp: Model_to_urdf_def try_finally_fst split: sum.splits)
  then show ?thesis
    unfolding Model_urdf_body_def
    by (auto simp: bindR_fst bindR_snd split: sum.splits)
qed

lemma mapR_nth_inv:
  assumes inv: "\<And>x c. x \<in> set xs \<Longrightarrow> I c \<Longrightarrow> I (snd (f x c))"
    and start: "I c"
    and ok: "fst (mapR f xs c) = Inr ys"
  shows "length ys = length xs
       \<and> (\<forall>i<length xs. \<exists>ci. I ci \<and> fst (f (xs ! i) ci) = Inr (ys ! i))"
  using inv start ok
proof (induction xs arbitrary: c ys)
  case Nil
  then show ?case by simp
next
  case (Cons x xs)
  from Cons.prems(3) obtain y ys' where
    y: "fst (f x c) = Inr y" and
    ys': "fst (mapR f xs (snd (f x c))) = Inr ys'" and
    eq: "ys = y # ys'"
    by (auto simp: mapR_fst_cases simp del: mapR.simps split: sum.splits)
  have p: "I (snd (f x c))"
    using Cons.prems(1,2) by simp
  have ih: "length ys' = length xs
       \<and> (\<forall>i<length xs. \<exists>ci. I ci \<and> fst (f (xs ! i) ci) = Inr (ys' ! i))"
    by (rule Cons.IH [OF _ p ys']) (use Cons.prems(1) in simp)
  have "\<exists>ci. I ci \<and> fst (f ((x # xs) ! i) ci) = Inr (ys ! i)"
    if i: "i < length (x # xs)" for i
  proof (cases i)
    case 0
    then show ?thesis using y eq Cons.prems(2) by auto
  next
    case (Suc k)
    then show ?thesis using ih i eq by auto
  qed
  then show ?case using ih eq by simp
qed

lemma Link_body_context:
  assumes "fst (Link_to_urdf env l ci) = Inr t" and "link_pose l = Some lp"
    and "pose_stack ci = []"
  shows "\<exists>c1. name_stack c1 = name_stack ci \<and> pose_stack c1 = [compose identity lp]
           \<and> fst (Link_urdf_body env l c1) = Inr t"
proof -
  have b: "fst (Link_urdf_body env l (Link_urdf_enter l ci)) = Inr t"
    using assms(1) by (auto simp: Link_to_urdf_def try_finally_fst split: sum.splits)
  have "name_stack (Link_urdf_enter l ci) = name_stack ci"
    "pose_stack (Link_urdf_enter l ci) = [compose identity lp]"
    using assms(2,3) by (simp_all add: Link_urdf_enter_stacks get_scoped_pose_def)
  then show ?thesis using b by blast
qed

section \<open>Include: a hard failure when flattening, a reference element when nesting\<close>

text \<open>
  C3. Rendering any Include to the flattening format raises (the \<^verbatim>\<open>ValueError\<close> reaches the
  caller, no fragment is produced and the context is untouched). Rendering the same
  Include to the nesting format succeeds, and the fragment contains the resource URI
  (inside its \<^verbatim>\<open><uri>\<close> element) and the scale text: the \<^verbatim>\<open><scale>\<close> element holding the
  scalar when the scalar scale is set, and the three components of the vector separated
  by blanks otherwise.
\<close>

theorem Include_flat_fails_nested_succeeds:
  \<open>to_urdf env (E_SDFInclude i) c = (Inl (ValueError ''Include tags is not supported for URDF.''), c)
   \<and> (\<exists>s. to_sdf env (E_SDFInclude i) c = (Inr s, c)
          \<and> sublist (''<uri>'' @ uri i @ ''</uri>'') s
          \<and> sublist (uri i) s
          \<and> (\<forall>k. scale1d i = Some k \<longrightarrow>
                sublist (''<scale>'' @ float_str env k @ ''</scale>'') s)
          \<and> (\<forall>s0 s1 s2. scale1d i = None \<and> scale i = (s0, s1, s2) \<longrightarrow>
                sublist (''<scale>'' @ float_str env s0 @ '' '' @ float_str env s1 @ '' ''
                           @ float_str env s2 @ ''</scale>'') s))\<close>
proof -
  define s where "s = SDFInclude_to_sdf env i"
  define name_str where
    \<open>name_str = (case include_name i of Some n \<Rightarrow> '' name="'' @ n @ ''"'' | None \<Rightarrow> [])\<close>
  define tail where
    \<open>tail = NL @ ''  '' @ (case include_pose i of Some p \<Rightarrow> Pose_to_sdf env p | None \<Rightarrow> [])
              @ NL @ ''</include>''\<close>
  define mid where
    \<open>mid = NL @ ''  <static>'' @ py_str_bool (include_static i) @ ''</static>'' @ NL @ ''  ''\<close>
  define head where \<open>head = ''<include'' @ name_str @ ''">'' @ NL @ ''  ''\<close>
  have shape: \<open>s = head @ (''<uri>'' @ uri i @ ''</uri>'') @ mid @ scale_str env i @ tail\<close>
    by (simp add: s_def SDFInclude_to_sdf_def head_def name_str_def mid_def tail_def)
  have u1: \<open>sublist (''<uri>'' @ uri i @ ''</uri>'') s\<close>
    unfolding shape by (rule sublist_appendI)
  have u2: "sublist (uri i) s"
  proof -
    have \<open>s = (head @ ''<uri>'') @ uri i @ (''</uri>'' @ mid @ scale_str env i @ tail)\<close>
      unfolding shape by simp
    then show ?thesis by (metis sublist_appendI)
  qed
  have u3: "sublist (scale_str env i) s"
  proof -
    have \<open>s = (head @ (''<uri>'' @ uri i @ ''</uri>'') @ mid) @ scale_str env i @ tail\<close>
      unfolding shape by simp
    then show ?thesis by (metis sublist_appendI)
  qed
  have one: \<open>sublist (''<scale>'' @ float_str env k @ ''</scale>'') s\<close>
    if "scale1d i = Some k" for k
    using u3 that by (simp add: scale_str_def)
  have three: \<open>sublist (''<scale>'' @ float_str env s0 @ '' '' @ float_str env s1 @ '' ''
                           @ float_str env s2 @ ''</scale>'') s\<close>
    if "scale1d i = None \<and> scale i = (s0, s1, s2)" for s0 s1 s2
    using u3 that by (simp add: scale_str_def)
  have "to_sdf env (E_SDFInclude i) c = (Inr s, c)"
    by (simp add: s_def)
  moreover have "to_urdf env (E_SDFInclude i) c
      = (Inl (ValueError ''Include tags is not supported for URDF.''), c)"
    by (simp add: SDFInclude_to_urdf_def)
  ultimately show ?thesis using u1 u2 one three by blast
qed

theorem Include_flat_fails_nested_succeeds_witness:
  \<open>scale1d sample_include = None \<and> scale sample_include = (1, 1, 1)
   \<and> scale1d (sample_include\<lparr>scale1d := Some 3\<rparr>) = Some 3
   \<and> to_urdf sample_env (E_SDFInclude sample_include) new_ctx
       = (Inl (ValueError ''Include tags is not supported for URDF.''), new_ctx)
   \<and> (\<exists>s. to_sdf sample_env (E_SDFInclude sample_include) new_ctx = (Inr s, new_ctx)
          \<and> sublist ''<uri>model://table</uri>'' s
          \<and> sublist ''<scale>1.0 1.0 1.0</scale>'' s)
   \<and> (\<exists>s. to_sdf sample_env (E_SDFInclude (sample_include\<lparr>scale1d := Some 3\<rparr>)) new_ctx
            = (Inr s, new_ctx)
          \<and> sublist ''<scale>2.5</scale>'' s)\<close>
proof -
  have d: "scale1d sample_include = None" "scale sample_include = (1, 1, 1)"
    "scale1d (sample_include\<lparr>scale1d := Some 3\<rparr>) = Some 3"
    "uri sample_include = ''model://table''"
    by (simp_all add: sample_include_def)
  have f: "float_str sample_env 1 = ''1.0''" "float_str sample_env 3 = ''2.5''"
    by (simp_all add: sample_env_def)
  from Include_flat_fails_nested_succeeds [of sample_env sample_include new_ctx]
  have a: \<open>to_urdf sample_env (E_SDFInclude sample_include) new_ctx
       = (Inl (ValueError ''Include tags is not supported for URDF.''), new_ctx)\<close>
    and b: \<open>\<exists>s. to_sdf sample_env (E_SDFInclude sample_include) new_ctx = (Inr s, new_ctx)
          \<and> sublist ''<uri>model://table</uri>'' s
          \<and> sublist ''<scale>1.0 1.0 1.0</scale>'' s\<close>
    using d f by auto
  from Include_flat_fails_nested_succeeds
    [of sample_env "sample_include\<lparr>scale1d := Some 3\<rparr>" new_ctx]
  have c: \<open>\<exists>s. to_sdf sample_env (E_SDFInclude (sample_include\<lparr>scale1d := Some 3\<rparr>)) new_ctx
            = (Inr s, new_ctx)
          \<and> sublist ''<scale>2.5</scale>'' s\<close>
    using d f by auto
  show ?thesis
    using d a b c by blast
qed

section \<open>Entities that only the nesting format can express\<close>

text \<open>
  C6. Surface info and every state snapshot entity (joint-axis, joint, link, model and
  world state) render to the empty fragment in the flattening format, never raise, and
  append exactly one diagnostic about themselves to the context.
\<close>

theorem nesting_only_entities_flatten_to_empty:
  "to_urdf env (E_SurfaceInfo si) c
     = (Inr [], c\<lparr>warnings := warnings c
          @ [(E_SurfaceInfo si, ''Link surface properties are not supported in URDF.'')]\<rparr>)
   \<and> to_urdf env (E_JointAxisState a) c
     = (Inr [], c\<lparr>warnings := warnings c
          @ [(E_JointAxisState a, ''JointAxisState is not supported in URDF.'')]\<rparr>)
   \<and> to_urdf env (E_JointState js) c
     = (Inr [], c\<lparr>warnings := warnings c
          @ [(E_JointState js, ''JointState is not supported in URDF.'')]\<rparr>)
   \<and> to_urdf env (E_LinkState ls) c
     = (Inr [], c\<lparr>warnings := warnings c
          @ [(E_LinkState ls, ''LinkState is not supported in URDF.'')]\<rparr>)
   \<and> to_urdf env (E_ModelState ms) c
     = (Inr [], c\<lparr>warnings := warnings c
          @ [(E_ModelState ms, ''ModelState is not supported in URDF.'')]\<rparr>)
   \<and> to_urdf env (E_WorldState ws) c
     = (Inr [], c\<lparr>warnings := warnings c
          @ [(E_WorldState ws, ''WorldState is not supported in URDF.'')]\<rparr>)"
  by (simp add: SurfaceInfo_to_urdf_def JointAxisState_to_urdf_def JointState_to_urdf_def
      LinkState_to_urdf_def ModelState_to_urdf_def WorldState_to_urdf_def warning_def)

section \<open>Joints without a name\<close>

text \<open>
  C7. A Joint whose name is \<^verbatim>\<open>None\<close> renders to the nesting format, and its element opens
  with \<^verbatim>\<open><joint type="...">\<close>, without a name attribute; rendering it to the flattening
  format fails on the assertion that the name is present. A Joint that has a name
  never takes the assertion branch: its flattening render returns a fragment.
\<close>

theorem nameless_joint:
  \<open>(joint_name j = None \<longrightarrow>
      (\<exists>rest. to_sdf env (E_Joint j) c
          = (Inr (''<joint type="'' @ joint_type (joint_joint_info j) @ ''">'' @ NL @ rest), c))
      \<and> to_urdf env (E_Joint j) c = (Inl AssertionError, c))
   \<and> (joint_name j \<noteq> None \<longrightarrow>
      (\<exists>s. to_urdf env (E_Joint j) c = (Inr s, c)))\<close>
  by (auto simp: Joint_to_sdf_def Joint_to_urdf_def Let_def)

theorem nameless_joint_witness:
  \<open>joint_name (sample_joint\<lparr>joint_name := None\<rparr>) = None
   \<and> to_sdf sample_env (E_Joint (sample_joint\<lparr>joint_name := None\<rparr>)) new_ctx
       = (Inr (''<joint type="fixed">'' @ NL @ ''  <parent>arm</parent>'' @ NL @
               ''  <child>hand</child>'' @ NL @ ''  <pose/>'' @ NL @ ''  '' @ NL @ ''  '' @ NL @
               ''</joint>''), new_ctx)
   \<and> to_urdf sample_env (E_Joint (sample_joint\<lparr>joint_name := None\<rparr>)) new_ctx
       = (Inl AssertionError, new_ctx)
   \<and> joint_name sample_joint \<noteq> None
   \<and> (\<exists>s. to_urdf sample_env (E_Joint sample_joint) new_ctx = (Inr s, new_ctx))\<close>
  using nameless_joint [of "sample_joint\<lparr>joint_name := None\<rparr>" sample_env new_ctx]
    nameless_joint [of sample_joint sample_env new_ctx]
  by (simp add: sample_joint_def Joint_to_sdf_def sample_env_def py_strip_def py_isspace_def)

section \<open>Flattened names and the pose stack\<close>

text \<open>
  C1, as the code has it. When a Model is rendered to the flattening format from empty
  stacks and returns a fragment, that fragment embeds one link fragment per Link of the
  Model, in order, and each opens with the flattened name: the model name, the separator
  (\<open>''.''\<close> by default) and the link name. The body of a Link that has a pose, where all
  its coordinates are formatted, runs with the name scope of the Model and with a pose
  stack holding the pose of the Link composed with the identity: the pose of the Model is
  never pushed.
\<close>

theorem flattened_link_name_and_pose:
  assumes "name_stack c = []" and "pose_stack c = []"
    and "fst (Model_to_urdf env m c) = Inr s"
  shows \<open>\<exists>ls js.
          s = ''<robot name="'' @ model_name m @ ''">'' @ NL @
              ''  '' @ py_strip (indent_text env (py_join NL ls) 1) @ NL @
              ''  '' @ py_strip (indent_text env (py_join NL js) 1) @ NL @
              ''</robot>''
        \<and> length ls = length (links m)
        \<and> (\<forall>i<length (links m).
              (\<exists>rest. ls ! i = ''<link name="'' @ model_name m @ name_scope_sep env
                                 @ link_name (links m ! i) @ ''">'' @ rest)
            \<and> (name_scope_sep env = ''.'' \<longrightarrow>
                 (\<exists>rest. ls ! i = ''<link name="'' @ model_name m @ ''.''
                                    @ link_name (links m ! i) @ ''">'' @ rest))
            \<and> (\<forall>lp. link_pose (links m ! i) = Some lp \<longrightarrow>
                 (\<exists>c1. name_stack c1 = [model_name m]
                      \<and> pose_stack c1 = [compose identity lp]
                      \<and> fst (Link_urdf_body env (links m ! i) c1) = Inr (ls ! i))))\<close>
proof -
  let ?c0 = "Model_urdf_enter m c"
  let ?I = "\<lambda>ci. name_stack ci = [model_name m] \<and> pose_stack ci = []"
  obtain ls js where
    ls: "fst (mapR (Link_to_urdf env) (links m) ?c0) = Inr ls" and
    s: \<open>s = ''<robot name="'' @ model_name m @ ''">'' @ NL @
              ''  '' @ py_strip (indent_text env (py_join NL ls) 1) @ NL @
              ''  '' @ py_strip (indent_text env (py_join NL js) 1) @ NL @
              ''</robot>''\<close>
    using Model_body_parts [OF assms(3)] by blast
  have start: "?I ?c0"
    using assms(1,2) by (simp add: Model_urdf_enter_stacks)
  have L: "length ls = length (links m)
       \<and> (\<forall>i<length (links m). \<exists>ci. ?I ci
              \<and> fst (Link_to_urdf env (links m ! i) ci) = Inr (ls ! i))"
    by (rule mapR_nth_inv [where I = ?I, OF _ start ls]) (simp add: Link_to_urdf_stacks)
  have each: \<open>(\<exists>rest. ls ! i = ''<link name="'' @ model_name m @ name_scope_sep env
                                 @ link_name (links m ! i) @ ''">'' @ rest)
            \<and> (name_scope_sep env = ''.'' \<longrightarrow>
                 (\<exists>rest. ls ! i = ''<link name="'' @ model_name m @ ''.''
                                    @ link_name (links m ! i) @ ''">'' @ rest))
            \<and> (\<forall>lp. link_pose (links m ! i) = Some lp \<longrightarrow>
                 (\<exists>c1. name_stack c1 = [model_name m]
                      \<and> pose_stack c1 = [compose identity lp]
                      \<and> fst (Link_urdf_body env (links m ! i) c1) = Inr (ls ! i)))\<close>
    if i: "i < length (links m)" for i
  proof -
    obtain ci where ci: "name_stack ci = [model_name m]" "pose_stack ci = []"
      and r: "fst (Link_to_urdf env (links m ! i) ci) = Inr (ls ! i)"
      using L i by blast
    have opens: \<open>\<exists>rest. ls ! i = ''<link name="'' @ model_name m @ name_scope_sep env
                                 @ link_name (links m ! i) @ ''">'' @ rest\<close>
      using Link_opens [OF r] ci(1) by (simp add: scope_prefix_def)
    have body: "\<exists>c1. name_stack c1 = [model_name m] \<and> pose_stack c1 = [compose identity lp]
           \<and> fst (Link_urdf_body env (links m ! i) c1) = Inr (ls ! i)"
      if lp: "link_pose (links m ! i) = Some lp" for lp
      using Link_body_context [OF r lp ci(2)] ci(1) by simp
    show ?thesis using opens body by auto
  qed
  show ?thesis
    using s L each by blast
qed

theorem flattened_link_name_and_pose_witness:
  \<open>name_stack new_ctx = [] \<and> pose_stack new_ctx = []
   \<and> name_scope_sep sample_env = ''.''
   \<and> links sample_model = [sample_link] \<and> link_pose sample_link = Some identity
   \<and> (\<exists>s ls. fst (Model_to_urdf sample_env sample_model new_ctx) = Inr s
         \<and> length ls = 1
         \<and> (\<exists>rest. ls ! 0 = ''<link name="robot.arm">'' @ rest)
         \<and> (\<exists>c1. name_stack c1 = [''robot'']
                \<and> pose_stack c1 = [compose identity identity]
                \<and> fst (Link_urdf_body sample_env sample_link c1) = Inr (ls ! 0)))\<close>
proof -
  have h: "name_stack new_ctx = []" "pose_stack new_ctx = []"
    by (simp_all add: new_ctx_def)
  have d: "name_scope_sep sample_env = ''.''" "links sample_model = [sample_link]"
    "link_pose sample_link = Some identity" "model_name sample_model = ''robot''"
    "link_name sample_link = ''arm''"
    by (simp_all add: sample_env_def sample_model_def sample_link_def)
  obtain s where s: "fst (Model_to_urdf sample_env sample_model new_ctx) = Inr s"
    using Model_ok [of sample_model sample_env new_ctx]
    by (auto simp: sample_model_def sample_link_def sample_joint_def)
  from flattened_link_name_and_pose [OF h s] obtain ls where
    len: "length ls = length (links sample_model)" and
    each: \<open>\<forall>i<length (links sample_model).
              (\<exists>rest. ls ! i = ''<link name="'' @ model_name sample_model
                                 @ name_scope_sep sample_env
                                 @ link_name (links sample_model ! i) @ ''">'' @ rest)
            \<and> (name_scope_sep sample_env = ''.'' \<longrightarrow>
                 (\<exists>rest. ls ! i = ''<link name="'' @ model_name sample_model @ ''.''
                                    @ link_name (links sample_model ! i) @ ''">'' @ rest))
            \<and> (\<forall>lp. link_pose (links sample_model ! i) = Some lp \<longrightarrow>
                 (\<exists>c1. name_stack c1 = [model_name sample_model]
                      \<and> pose_stack c1 = [compose identity lp]
                      \<and> fst (Link_urdf_body sample_env (links sample_model ! i) c1)
                          = Inr (ls ! i)))\<close>
    by blast
  have n: \<open>\<exists>rest. ls ! 0 = ''<link name="robot.arm">'' @ rest\<close>
    using each [rule_format, of 0] by (simp add: d)
  have p: "\<exists>c1. name_stack c1 = [''robot'']
                \<and> pose_stack c1 = [compose identity identity]
                \<and> fst (Link_urdf_body sample_env sample_link c1) = Inr (ls ! 0)"
    using each [rule_format, of 0] by (simp add: d)
  show ?thesis
    using h d s len n p by auto
qed

text \<open>
  The claim as the spec words it, with the pose of the Model composed in, fails: a Model
  shifted along x holding a Link at the identity leaves the identity on the pose stack.
\<close>

theorem model_pose_not_composed:
  "model_pose sample_model = Some shifted \<and> link_pose sample_link = Some identity
   \<and> links sample_model = [sample_link]
   \<and> last (pose_stack (Link_urdf_enter sample_link (Model_urdf_enter sample_model new_ctx)))
        \<noteq> compose shifted identity"
  by (simp add: sample_model_def sample_link_def new_ctx_def Link_urdf_enter_def
      Model_urdf_enter_def Model_urdf_warn_def push_scoped_pose_def push_scoped_name_def
      get_scoped_pose_def warning_def compose_def identity_def shifted_def)

section \<open>Stack balance\<close>

text \<open>
  C2. For every entity and either format: when the name-scope stack and the pose stack
  are empty before the render call, both are empty after it, whether the call returns a
  fragment or raises. Every push is undone by the pop of the enclosing \<^verbatim>\<open>finally\<close>; the
  witness is a Model whose joint fails the name assertion after its link was rendered.
\<close>

theorem stacks_balanced:
  assumes "name_stack c = []" and "pose_stack c = []"
  shows "name_stack (snd (to_urdf env e c)) = [] \<and> pose_stack (snd (to_urdf env e c)) = []
       \<and> name_stack (snd (to_sdf env e c)) = [] \<and> pose_stack (snd (to_sdf env e c)) = []"
  using assms by (simp add: to_urdf_name_stack to_urdf_pose_stack to_sdf_snd)

theorem stacks_balanced_witness:
  "name_stack new_ctx = [] \<and> pose_stack new_ctx = []
   \<and> fst (to_urdf sample_env (E_Model broken_model) new_ctx) = Inl AssertionError
   \<and> name_stack (snd (to_urdf sample_env (E_Model broken_model) new_ctx)) = []
   \<and> pose_stack (snd (to_urdf sample_env (E_Model broken_model) new_ctx)) = []
   \<and> name_stack (snd (to_sdf sample_env (E_Model broken_model) new_ctx)) = []
   \<and> pose_stack (snd (to_sdf sample_env (E_Model broken_model) new_ctx)) = []"
  using stacks_balanced [of new_ctx sample_env "E_Model broken_model"] broken_model_fails
  by (simp add: new_ctx_def)

section \<open>The single-geometry constructor\<close>

text \<open>
  C9. For every name, pose, colour and shape type that \<^verbatim>\<open>ShapeInfo.from_type\<close> accepts,
  \<^verbatim>\<open>Link.from_simple_geom\<close> returns a Link with exactly one Collision, named
  \<^verbatim>\<open>name + "_collision"\<close>, and exactly one Visual, named \<^verbatim>\<open>name + "_visual"\<close>; both carry the
  shape built from the shape type and the given pose, the Visual carries the colour as
  its material, and the pose and the parent of the Link itself are unset.
\<close>

theorem from_simple_geom_single_geometry:
  assumes "from_type shape_ty kwargs = Inr shape"
  shows "\<exists>l. from_simple_geom from_type RGBA name p shape_ty (r, g, b, a) inertial_arg kwargs = Inr l
           \<and> link_name l = name
           \<and> collisions l = [\<lparr>collision_name = name @ ''_collision'', collision_pose = Some p,
                               collision_shape = shape, surface = None\<rparr>]
           \<and> visuals l = [\<lparr>visual_name = name @ ''_visual'', visual_pose = Some p,
                            visual_shape = shape, visual_material = Some (RGBA r g b a)\<rparr>]
           \<and> link_pose l = None \<and> link_parent l = None"
  using assms by (simp add: from_simple_geom_def)

theorem from_simple_geom_single_geometry_witness:
  "sample_from_type ''box'' () = Inr sample_box
   \<and> (\<exists>l. from_simple_geom sample_from_type sample_RGBA ''arm'' shifted ''box'' (1, 0, 0, 1) None ()
              = Inr l
           \<and> link_name l = ''arm''
           \<and> collisions l = [\<lparr>collision_name = ''arm_collision'', collision_pose = Some shifted,
                               collision_shape = sample_box, surface = None\<rparr>]
           \<and> visuals l = [\<lparr>visual_name = ''arm_visual'', visual_pose = Some shifted,
                            visual_shape = sample_box,
                            visual_material = Some (sample_RGBA 1 0 0 1)\<rparr>]
           \<and> link_pose l = None \<and> link_parent l = None)"
proof -
  have h: "sample_from_type ''box'' () = Inr sample_box"
    by (simp add: sample_from_type_def)
  show ?thesis
    using h from_simple_geom_single_geometry [where from_type = sample_from_type
        and shape_ty = "''box''" and kwargs = "()" and shape = sample_box and RGBA = sample_RGBA
        and name = "''arm''" and p = shifted and r = 1 and g = 0 and b = 0 and a = 1
        and inertial_arg = None]
    by simp
qed

section \<open>Model fields the flattening format ignores\<close>

text \<open>
  C5. Rendering a Model to the flattening format appends one diagnostic for each of pose,
  parent and static that is set, in this order, before any diagnostic of its children.
  The result is that of the same Model with the three fields unset, so none of them
  reaches the fragment or makes the render fail; the render returns a fragment whenever
  each link and joint can be rendered.
\<close>

theorem Model_flat_ignored_fields:
  "(\<exists>ws. warnings (snd (Model_to_urdf env m c)) = warnings c
        @ (if model_pose m \<noteq> None
           then [(E_Model m, ''Model::pose will be ignored in URDF.'')] else [])
        @ (if model_parent m \<noteq> None
           then [(E_Model m, ''Model::parent will be ignored in URDF.'')] else [])
        @ (if model_static m
           then [(E_Model m, ''Model::static will be ignored in URDF.'')] else [])
        @ ws)
   \<and> fst (Model_to_urdf env m c)
       = fst (Model_to_urdf env
                (m\<lparr>model_pose := None, model_parent := None, model_static := False\<rparr>) c)
   \<and> ((\<forall>l\<in>set (links m). (link_pose l \<noteq> None \<or> \<not> pop_empty_raises env)
              \<and> (\<forall>g\<in>set (collisions l). collision_pose g \<noteq> None)
              \<and> (\<forall>g\<in>set (visuals l). visual_pose g \<noteq> None))
        \<and> (\<forall>j\<in>set (joints m). joint_name j \<noteq> None)
       \<longrightarrow> (\<exists>s. fst (Model_to_urdf env m c) = Inr s))"
proof -
  obtain ws where "warnings (snd (Model_to_urdf env m c)) = warnings (Model_urdf_warn m c) @ ws"
    using Model_to_urdf_stacks(3) [of m c env] by (auto simp: prefix_def)
  then have w: "\<exists>ws. warnings (snd (Model_to_urdf env m c)) = warnings c
        @ (if model_pose m \<noteq> None
           then [(E_Model m, ''Model::pose will be ignored in URDF.'')] else [])
        @ (if model_parent m \<noteq> None
           then [(E_Model m, ''Model::parent will be ignored in URDF.'')] else [])
        @ (if model_static m
           then [(E_Model m, ''Model::static will be ignored in URDF.'')] else [])
        @ ws"
    by (simp only: Model_urdf_warn_warnings append_assoc) blast
  show ?thesis
    using w Model_ignored_fields_fst [of env m c] Model_ok [of m env c] by simp
qed

theorem Model_flat_ignored_fields_witness:
  "links sample_model = [sample_link] \<and> joints sample_model = [sample_joint]
   \<and> link_pose sample_link = Some identity
   \<and> map collision_pose (collisions sample_link) = [Some identity]
   \<and> map visual_pose (visuals sample_link) = [Some identity]
   \<and> joint_name sample_joint = Some ''hinge''
   \<and> model_pose sample_model = Some shifted \<and> model_parent sample_model = Some ''world''
   \<and> model_static sample_model
   \<and> (\<exists>s. fst (Model_to_urdf sample_env sample_model new_ctx) = Inr s)
   \<and> (\<exists>ws. warnings (snd (Model_to_urdf sample_env sample_model new_ctx))
         = [(E_Model sample_model, ''Model::pose will be ignored in URDF.''),
            (E_Model sample_model, ''Model::parent will be ignored in URDF.''),
            (E_Model sample_model, ''Model::static will be ignored in URDF.'')] @ ws)"
proof -
  have h: "(\<forall>l\<in>set (links sample_model). (link_pose l \<noteq> None \<or> \<not> pop_empty_raises sample_env)
              \<and> (\<forall>g\<in>set (collisions l). collision_pose g \<noteq> None)
              \<and> (\<forall>g\<in>set (visuals l). visual_pose g \<noteq> None))
   \<and> (\<forall>j\<in>set (joints sample_model). joint_name j \<noteq> None)"
    by (simp add: sample_model_def sample_link_def sample_joint_def)
  have f: "model_pose sample_model \<noteq> None \<and> model_parent sample_model \<noteq> None
      \<and> model_static sample_model"
    by (simp add: sample_model_def)
  have w: "warnings new_ctx = []"
    by (simp add: new_ctx_def)
  note T = Model_flat_ignored_fields [of sample_env sample_model new_ctx]
  have ok: "\<exists>s. fst (Model_to_urdf sample_env sample_model new_ctx) = Inr s"
    using conjunct2 [OF conjunct2 [OF T]] h by blast
  have ws: "\<exists>ws. warnings (snd (Model_to_urdf sample_env sample_model new_ctx))
         = [(E_Model sample_model, ''Model::pose will be ignored in URDF.''),
            (E_Model sample_model, ''Model::parent will be ignored in URDF.''),
            (E_Model sample_model, ''Model::static will be ignored in URDF.'')] @ ws"
    using conjunct1 [OF T] f w by simp
  have d: "links sample_model = [sample_link]" "joints sample_model = [sample_joint]"
    "link_pose sample_link = Some identity"
    "map collision_pose (collisions sample_link) = [Some identity]"
    "map visual_pose (visuals sample_link) = [Some identity]"
    "joint_name sample_joint = Some ''hinge''"
    "model_pose sample_model = Some shifted" "model_parent sample_model = Some ''world''"
    "model_static sample_model"
    by (simp_all add: sample_model_def sample_link_def sample_joint_def)
  show ?thesis
    using d ok ws by blast
qed

section \<open>Determinism\<close>

text \<open>
  C8. The rendered text is a function of the entity tree: two render calls from contexts
  with empty stacks give the same result in either format, whatever diagnostics the
  contexts hold, and so does a second call on the context the first one left behind.
\<close>

theorem render_deterministic:
  assumes "name_stack c1 = []" and "pose_stack c1 = []"
    and "name_stack c2 = []" and "pose_stack c2 = []"
  shows "fst (to_urdf env e c1) = fst (to_urdf env e c2)
       \<and> fst (to_sdf env e c1) = fst (to_sdf env e c2)
       \<and> fst (to_urdf env e (snd (to_urdf env e c1))) = fst (to_urdf env e c1)"
proof -
  have s: "same_scope c1 c2"
    using assms by (simp add: same_scope_def)
  have again: "same_scope (snd (to_urdf env e c1)) c1"
    using assms by (simp add: same_scope_def to_urdf_name_stack to_urdf_pose_stack)
  show ?thesis
    using to_urdf_fst_cong [OF s] to_sdf_fst [of env e c1 c2] to_urdf_fst_cong [OF again]
    by simp
qed

theorem render_deterministic_witness:
  \<open>name_stack new_ctx = [] \<and> pose_stack new_ctx = []
   \<and> name_stack (new_ctx\<lparr>warnings := [(E_SurfaceContact SurfaceContact, ''stale'')]\<rparr>) = []
   \<and> pose_stack (new_ctx\<lparr>warnings := [(E_SurfaceContact SurfaceContact, ''stale'')]\<rparr>) = []
   \<and> fst (to_urdf sample_env (E_Joint sample_joint)
            (new_ctx\<lparr>warnings := [(E_SurfaceContact SurfaceContact, ''stale'')]\<rparr>))
       = Inr (''<joint name="hinge" type="fixed">'' @ NL @
              ''  <parent link="arm"/>'' @ NL @
              ''  <child link="hand"/>'' @ NL @
              ''  <origin/>'' @ NL @ ''  '' @ NL @ ''  '' @ NL @ ''</joint>'')
   \<and> fst (to_urdf sample_env (E_Joint sample_joint) new_ctx)
       = Inr (''<joint name="hinge" type="fixed">'' @ NL @
              ''  <parent link="arm"/>'' @ NL @
              ''  <child link="hand"/>'' @ NL @
              ''  <origin/>'' @ NL @ ''  '' @ NL @ ''  '' @ NL @ ''</joint>'')
   \<and> fst (to_sdf sample_env (E_Joint sample_joint) new_ctx)
       = fst (to_sdf sample_env (E_Joint sample_joint)
            (new_ctx\<lparr>warnings := [(E_SurfaceContact SurfaceContact, ''stale'')]\<rparr>))\<close>
  using render_deterministic [of new_ctx
      "new_ctx\<lparr>warnings := [(E_SurfaceContact SurfaceContact, ''stale'')]\<rparr>"
      sample_env "E_Joint sample_joint"]
  by (simp add: new_ctx_def sample_joint_def sample_env_def Joint_to_urdf_def
      get_scoped_name_def py_strip_def py_isspace_def)

section \<open>Joint references and link names share one scope\<close>

text \<open>
  C10. A Joint rendered to the flattening format under any name-scope stack puts the
  same scope prefix before its own name, its parent reference and its child reference.
  When a Model renders, every link fragment opens with the prefix of the Model scope
  before the link name, and every joint fragment has that same prefix before its name
  and both references: a reference to a link of the Model is the flattened name that
  link received.
\<close>

theorem joint_references_share_link_scope:
  \<open>(\<forall>n. joint_name j = Some n \<longrightarrow>
      (\<exists>rest. Joint_to_urdf env j c0
         = (Inr (''<joint name="'' @ scope_prefix env (name_stack c0) @ n @ ''" type="''
                   @ joint_type (joint_joint_info j) @ ''">'' @ NL @
                 ''  <parent link="'' @ scope_prefix env (name_stack c0) @ joint_parent j
                   @ ''"/>'' @ NL @
                 ''  <child link="'' @ scope_prefix env (name_stack c0) @ joint_child j
                   @ ''"/>'' @ NL @ rest), c0)))
   \<and> (\<forall>s. fst (Model_to_urdf env m c) = Inr s \<longrightarrow>
      (\<exists>ls js.
          s = ''<robot name="'' @ model_name m @ ''">'' @ NL @
              ''  '' @ py_strip (indent_text env (py_join NL ls) 1) @ NL @
              ''  '' @ py_strip (indent_text env (py_join NL js) 1) @ NL @
              ''</robot>''
        \<and> length ls = length (links m) \<and> length js = length (joints m)
        \<and> (\<forall>i<length (links m). \<exists>rest.
              ls ! i = ''<link name="'' @ scope_prefix env (name_stack c @ [model_name m])
                         @ link_name (links m ! i) @ ''">'' @ rest)
        \<and> (\<forall>k<length (joints m). \<exists>n rest.
              joint_name (joints m ! k) = Some n
            \<and> js ! k = ''<joint name="'' @ scope_prefix env (name_stack c @ [model_name m]) @ n
                         @ ''" type="'' @ joint_type (joint_joint_info (joints m ! k))
                         @ ''">'' @ NL @
                       ''  <parent link="'' @ scope_prefix env (name_stack c @ [model_name m])
                         @ joint_parent (joints m ! k) @ ''"/>'' @ NL @
                       ''  <child link="'' @ scope_prefix env (name_stack c @ [model_name m])
                         @ joint_child (joints m ! k) @ ''"/>'' @ NL @ rest)))\<close>
proof (intro conjI allI impI)
  fix n assume "joint_name j = Some n"
  then show \<open>\<exists>rest. Joint_to_urdf env j c0
         = (Inr (''<joint name="'' @ scope_prefix env (name_stack c0) @ n @ ''" type="''
                   @ joint_type (joint_joint_info j) @ ''">'' @ NL @
                 ''  <parent link="'' @ scope_prefix env (name_stack c0) @ joint_parent j
                   @ ''"/>'' @ NL @
                 ''  <child link="'' @ scope_prefix env (name_stack c0) @ joint_child j
                   @ ''"/>'' @ NL @ rest), c0)\<close>
    by (simp add: Joint_to_urdf_def Let_def get_scoped_name_scope_prefix)
next
  fix s assume ok: "fst (Model_to_urdf env m c) = Inr s"
  let ?c0 = "Model_urdf_enter m c"
  let ?c1 = "snd (mapR (Link_to_urdf env) (links m) ?c0)"
  let ?P = "scope_prefix env (name_stack c @ [model_name m])"
  obtain ls js where
    ls: "fst (mapR (Link_to_urdf env) (links m) ?c0) = Inr ls" and
    js: "fst (mapR (Joint_to_urdf env) (joints m) ?c1) = Inr js" and
    s: \<open>s = ''<robot name="'' @ model_name m @ ''">'' @ NL @
              ''  '' @ py_strip (indent_text env (py_join NL ls) 1) @ NL @
              ''  '' @ py_strip (indent_text env (py_join NL js) 1) @ NL @
              ''</robot>''\<close>
    using Model_body_parts [OF ok] by blast
  have n0: "name_stack ?c0 = name_stack c @ [model_name m]"
    by (simp add: Model_urdf_enter_stacks)
  have n1: "name_stack ?c1 = name_stack c @ [model_name m]"
    using settles_mapR [of "Link_to_urdf env" ?c0 "links m", OF settles_Link] n0
    by (simp add: settles_def)
  have L: "length ls = length (links m)
       \<and> (\<forall>i<length (links m). \<exists>ci. name_stack ci = name_stack ?c0
              \<and> fst (Link_to_urdf env (links m ! i) ci) = Inr (ls ! i))"
    by (rule mapR_nth [where proj = name_stack, OF _ ls]) (simp add: Link_to_urdf_stacks)
  have J: "length js = length (joints m)
       \<and> (\<forall>k<length (joints m). \<exists>ci. name_stack ci = name_stack ?c1
              \<and> fst (Joint_to_urdf env (joints m ! k) ci) = Inr (js ! k))"
  proof (rule mapR_nth [where proj = name_stack, OF _ js])
    fix x c' show "name_stack (snd (Joint_to_urdf env x c')) = name_stack c'"
      using grows_Joint [of c' env x] by (simp add: grows_def)
  qed
  have links_ok: \<open>\<exists>rest. ls ! i = ''<link name="'' @ ?P @ link_name (links m ! i) @ ''">'' @ rest\<close>
    if i: "i < length (links m)" for i
  proof -
    obtain ci where "name_stack ci = name_stack ?c0"
      and "fst (Link_to_urdf env (links m ! i) ci) = Inr (ls ! i)"
      using L i by blast
    then show ?thesis using Link_opens [of env "links m ! i" ci "ls ! i"] n0 by simp
  qed
  have joints_ok: \<open>\<exists>n rest. joint_name (joints m ! k) = Some n
            \<and> js ! k = ''<joint name="'' @ ?P @ n
                         @ ''" type="'' @ joint_type (joint_joint_info (joints m ! k))
                         @ ''">'' @ NL @
                       ''  <parent link="'' @ ?P @ joint_parent (joints m ! k) @ ''"/>'' @ NL @
                       ''  <child link="'' @ ?P @ joint_child (joints m ! k) @ ''"/>'' @ NL @ rest\<close>
    if k: "k < length (joints m)" for k
  proof -
    obtain ci where "name_stack ci = name_stack ?c1"
      and "fst (Joint_to_urdf env (joints m ! k) ci) = Inr (js ! k)"
      using J k by blast
    then show ?thesis using Joint_opens [of env "joints m ! k" ci "js ! k"] n1 by simp
  qed
  show \<open>\<exists>ls js.
          s = ''<robot name="'' @ model_name m @ ''">'' @ NL @
              ''  '' @ py_strip (indent_text env (py_join NL ls) 1) @ NL @
              ''  '' @ py_strip (indent_text env (py_join NL js) 1) @ NL @
              ''</robot>''
        \<and> length ls = length (links m) \<and> length js = length (joints m)
        \<and> (\<forall>i<length (links m). \<exists>rest.
              ls ! i = ''<link name="'' @ ?P @ link_name (links m ! i) @ ''">'' @ rest)
        \<and> (\<forall>k<length (joints m). \<exists>n rest.
              joint_name (joints m ! k) = Some n
            \<and> js ! k = ''<joint name="'' @ ?P @ n
                         @ ''" type="'' @ joint_type (joint_joint_info (joints m ! k))
                         @ ''">'' @ NL @
                       ''  <parent link="'' @ ?P @ joint_parent (joints m ! k) @ ''"/>'' @ NL @
                       ''  <child link="'' @ ?P @ joint_child (joints m ! k) @ ''"/>'' @ NL @ rest)\<close>
    using s L J links_ok joints_ok by blast
qed

theorem joint_references_share_link_scope_witness:
  \<open>joint_name sample_joint = Some ''hinge''
   \<and> (\<exists>rest. Joint_to_urdf sample_env sample_joint new_ctx
         = (Inr (''<joint name="hinge" type="fixed">'' @ NL @
                 ''  <parent link="arm"/>'' @ NL @
                 ''  <child link="hand"/>'' @ NL @ rest), new_ctx))
   \<and> (\<exists>s ls js. fst (Model_to_urdf sample_env sample_model new_ctx) = Inr s
         \<and> length ls = 1 \<and> length js = 1
         \<and> (\<exists>rest. ls ! 0 = ''<link name="robot.arm">'' @ rest)
         \<and> (\<exists>rest. js ! 0 = ''<joint name="robot.hinge" type="fixed">'' @ NL @
                              ''  <parent link="robot.arm"/>'' @ NL @
                              ''  <child link="robot.hand"/>'' @ NL @ rest))\<close>
proof -
  note T = joint_references_share_link_scope
    [of sample_joint sample_env new_ctx sample_model new_ctx]
  have n: "joint_name sample_joint = Some ''hinge''"
    by (simp add: sample_joint_def)
  have P0: "scope_prefix sample_env (name_stack new_ctx) = []"
    by (simp add: scope_prefix_def new_ctx_def)
  have P1: "scope_prefix sample_env (name_stack new_ctx @ [model_name sample_model]) = ''robot.''"
    by (simp add: scope_prefix_def new_ctx_def sample_model_def sample_env_def)
  have data: "links sample_model = [sample_link]" "joints sample_model = [sample_joint]"
    "link_name sample_link = ''arm''" "joint_parent sample_joint = ''arm''"
    "joint_child sample_joint = ''hand''" "joint_type (joint_joint_info sample_joint) = ''fixed''"
    by (simp_all add: sample_model_def sample_link_def sample_joint_def)
  have j: \<open>\<exists>rest. Joint_to_urdf sample_env sample_joint new_ctx
         = (Inr (''<joint name="hinge" type="fixed">'' @ NL @
                 ''  <parent link="arm"/>'' @ NL @
                 ''  <child link="hand"/>'' @ NL @ rest), new_ctx)\<close>
    using conjunct1 [OF T] n by (simp add: P0 data)
  obtain s where s: "fst (Model_to_urdf sample_env sample_model new_ctx) = Inr s"
    using Model_ok [of sample_model sample_env new_ctx]
    by (auto simp: sample_model_def sample_link_def sample_joint_def)
  from conjunct2 [OF T] s obtain ls js where
    len: "length ls = length (links sample_model)" "length js = length (joints sample_model)" and
    l: \<open>\<forall>i<length (links sample_model). \<exists>rest.
          ls ! i = ''<link name="''
            @ scope_prefix sample_env (name_stack new_ctx @ [model_name sample_model])
            @ link_name (links sample_model ! i) @ ''">'' @ rest\<close> and
    k: \<open>\<forall>k<length (joints sample_model). \<exists>n rest.
          joint_name (joints sample_model ! k) = Some n
        \<and> js ! k = ''<joint name="''
            @ scope_prefix sample_env (name_stack new_ctx @ [model_name sample_model]) @ n
            @ ''" type="'' @ joint_type (joint_joint_info (joints sample_model ! k))
            @ ''">'' @ NL @
          ''  <parent link="''
            @ scope_prefix sample_env (name_stack new_ctx @ [model_name sample_model])
            @ joint_parent (joints sample_model ! k) @ ''"/>'' @ NL @
          ''  <child link="''
            @ scope_prefix sample_env (name_stack new_ctx @ [model_name sample_model])
            @ joint_child (joints sample_model ! k) @ ''"/>'' @ NL @ rest\<close>
    by blast
  have l0: \<open>\<exists>rest. ls ! 0 = ''<link name="robot.arm">'' @ rest\<close>
    using l [rule_format, of 0] by (simp add: P1 data)
  have k0: \<open>\<exists>rest. js ! 0 = ''<joint name="robot.hinge" type="fixed">'' @ NL @
                              ''  <parent link="robot.arm"/>'' @ NL @
                              ''  <child link="robot.hand"/>'' @ NL @ rest\<close>
    using k [rule_format, of 0] n by (simp add: P1 data)
  show ?thesis
    using n j s len l0 k0 by (auto simp: data)
qed

end
